theory Spec2Isabelle
  imports Main "HOL-Library.Sublist"
begin

unbundle bit_operations_syntax

section \<open>Go values: errors, strings, formatting\<close>

text \<open>
  A Go \<^verbatim>\<open>error\<close> value is modelled by its message (what \<^verbatim>\<open>err.Error()\<close> returns) and
  by the part of its dynamic type that the program looks at: whether
  \<^verbatim>\<open>os.IsNotExist\<close> holds for it, and whether it is an \<^verbatim>\<open>*exec.ExitError\<close> (with
  its exit code and captured standard error).
\<close>

datatype errkind = Plain | NotExist | ExitStatus int string

datatype error = Error string errkind

fun msg :: "error \<Rightarrow> string" where
  "msg (Error m k) = m"

fun kind :: "error \<Rightarrow> errkind" where
  "kind (Error m k) = k"

text \<open>\<^verbatim>\<open>fmt.Errorf(pre + "%w" + post, err)\<close>: a new error value whose message embeds the
  message of the wrapped one. The program never unwraps.\<close>

definition Errorf_w :: "string \<Rightarrow> error \<Rightarrow> string \<Rightarrow> error" where
  "Errorf_w pre e post = Error (pre @ msg e @ post) Plain"

text \<open>\<^verbatim>\<open>os.IsNotExist(err)\<close>.\<close>

definition IsNotExist :: "error option \<Rightarrow> bool" where
  "IsNotExist e = (case e of Some (Error m NotExist) \<Rightarrow> True | _ \<Rightarrow> False)"

text \<open>\<^verbatim>\<open>strings.Contains(s, substr)\<close> on byte strings.\<close>

fun Contains :: "string \<Rightarrow> string \<Rightarrow> bool" where
  "Contains [] substr = (substr = [])"
| "Contains (c # s) substr = (prefix substr (c # s) \<or> Contains s substr)"

text \<open>\<^verbatim>\<open>strings.Join(elems, sep)\<close>.\<close>

fun Join_strings :: "string list \<Rightarrow> string \<Rightarrow> string" where
  "Join_strings [] sep = []"
| "Join_strings [x] sep = x"
| "Join_strings (x # y # ys) sep = x @ sep @ Join_strings (y # ys) sep"

text \<open>The verb \<^verbatim>\<open>%d\<close> of \<^verbatim>\<open>fmt.Sprintf\<close> on an \<^verbatim>\<open>int\<close>.\<close>

function digits :: "nat \<Rightarrow> string" where
  "digits n = (if n < 10 then [''0123456789'' ! n]
               else digits (n div 10) @ [''0123456789'' ! (n mod 10)])"
  by pat_completeness auto
termination
  by (relation "measure id") auto

declare digits.simps [simp del]

definition itoa :: "int \<Rightarrow> string" where
  "itoa i = (if i < 0 then CHR ''-'' # digits (nat (- i)) else digits (nat i))"

section \<open>The outside world\<close>

text \<open>
  Every system call, library call with an effect and \<^verbatim>\<open>podman\<close> invocation of the
  program is a \<open>call\<close> (declared below). A run is the list of calls made so far, oldest
  first. File modes are written in decimal (\<^verbatim>\<open>0755\<close> is 493, \<^verbatim>\<open>0644\<close> is 420).

  \<^item> \<open>Prctl option arg\<close>, \<open>Unshare flags\<close>, \<open>Setns fd nstype\<close>, \<open>Chroot path\<close>,
    \<open>Chdir path\<close>, \<open>Mount source target fstype flags data\<close>, \<open>Unmount target flags\<close>,
    \<open>OpenTree path flags\<close> and \<open>MoveMount fd target flags\<close> are the functions of
    \<^verbatim>\<open>golang.org/x/sys/unix\<close> of these names (\<^verbatim>\<open>AT_FDCWD\<close> and the empty source path of
    \<^verbatim>\<open>MoveMount\<close> are left out);
  \<^item> \<open>Open path\<close>, \<open>OpenFile path mode\<close> (always with
    \<^verbatim>\<open>O_CREATE|O_WRONLY|O_TRUNC\<close>), \<open>MkdirAll path mode\<close>, \<open>Stat path\<close>, \<open>Create path\<close>,
    \<open>WriteFile path content mode\<close>, \<open>Remove path\<close> and \<open>Setenv name value\<close> are those of
    package \<^verbatim>\<open>os\<close>; \<open>Copy dst src\<close> is \<^verbatim>\<open>io.Copy\<close> between two opened files;
  \<^item> \<open>Exec name args\<close> is \<^verbatim>\<open>exec.Command(name, args...)\<close> followed by \<^verbatim>\<open>Run()\<close> or
    \<^verbatim>\<open>Output()\<close>; \<open>LookPath name\<close> is \<^verbatim>\<open>exec.LookPath\<close>; \<open>SyscallExec path argv\<close> is
    \<^verbatim>\<open>syscall.Exec\<close> (its environment is left out);
  \<^item> \<open>PtyStart cmd\<close>, \<open>PtyGetsize f\<close> and \<open>PtySetsize\<close> are \<^verbatim>\<open>pty.Start\<close>,
    \<^verbatim>\<open>pty.GetsizeFull\<close> and \<^verbatim>\<open>pty.Setsize\<close>; \<open>PtyPump\<close> stands for the two copying
    goroutines between the terminal and the pseudo-terminal; \<open>CmdWait cmd\<close> is
    \<^verbatim>\<open>cmd.Wait()\<close>; \<open>CmdRun cmd streams\<close> is \<^verbatim>\<open>cmd.Run()\<close> after the three streams have been
    assigned to the command;
  \<^item> \<open>MakeRaw fd\<close> and \<open>Restore fd\<close> are those of \<^verbatim>\<open>golang.org/x/term\<close>;
  \<^item> \<open>Note text\<close> is a line printed on the standard error.

  Closing a descriptor, \<^verbatim>\<open>runtime.LockOSThread\<close>, the channels between the worker and
  \<^verbatim>\<open>waitForResult\<close>, and the forwarding of window-size signals are not calls: no claim
  proved here depends on them, and the result a session returns is the one its worker
  sends.
\<close>

text \<open>An \<^verbatim>\<open>*os.File\<close> is its descriptor number; a descriptor obtained by opening a path
  (a namespace file, the cloned mount tree) is named by that path.\<close>

datatype osfile = File int

record Streams =
  Stdin :: "osfile option"
  Stdout :: "osfile option"
  Stderr :: "osfile option"

text \<open>An \<^verbatim>\<open>*exec.Cmd\<close>: the program, its argument vector, and the clone flags of
  \<^verbatim>\<open>SysProcAttr\<close> (0 when none is set). \<^verbatim>\<open>cmd.Dir\<close> is always \<^verbatim>\<open>"/"\<close> and \<^verbatim>\<open>cmd.Env\<close>
  the environment of the process at that moment.\<close>

record ExecCmd =
  Path :: string
  Args :: "string list"
  Cloneflags :: nat

text \<open>What is written to a file: bytes computed by the program, or one of the constant
  texts of the source (the four helper scripts and the nix configuration), which are named
  here and not spelt out.\<close>

datatype content =
    Bytes string
  | installScript
  | uninstallScript
  | builtinsScript
  | entrypointScript
  | nixConfig

datatype call =
    Prctl nat nat
  | OpenTree string nat
  | Open string
  | OpenFile string nat
  | Copy string string
  | Unshare nat
  | Setns string nat
  | Mount string string string nat string
  | Unmount string nat
  | MoveMount string string nat
  | MkdirAll string nat
  | Stat string
  | Create string
  | WriteFile string content nat
  | Remove string
  | Chroot string
  | Chdir string
  | Setenv string string
  | PtyStart ExecCmd
  | PtyGetsize osfile
  | PtySetsize
  | PtyPump
  | CmdWait ExecCmd
  | CmdRun ExecCmd Streams
  | MakeRaw int
  | Restore int
  | Note string
  | Exec string "string list"
  | SyscallExec string "string list"
  | LookPath string

record inspectResult =
  ir_ID :: string
  ir_Status :: string
  ir_PID :: int

record EntrypointInfo =
  Entrypoint :: "string list"
  Cmd :: "string list"
  WorkingDir :: string

text \<open>The flag variables of the command line (package-level variables of
  \<^verbatim>\<open>main.go\<close>).\<close>

record flags =
  flagShell :: string
  flagCommand :: string
  flagImage :: string
  flagPull :: string
  flagInteractive :: bool
  flagTTY :: bool
  flagWritable :: bool

text \<open>What cobra makes of the command line before \<^verbatim>\<open>RunE\<close> is called: a flag error,
  a request for help, or the flag values and the positional arguments.\<close>

datatype parsed = FlagError error | Help | Parsed flags "string list"

text \<open>
  The world answers each call, given the run so far: \<open>result\<close> is the error a call
  returns (\<open>None\<close> is \<^verbatim>\<open>nil\<close>). The other fields are what the program reads from
  outside: the size \<^verbatim>\<open>os.Stat\<close> reports; the string a call returns (the standard
  output of a \<^verbatim>\<open>podman\<close> command, the path \<^verbatim>\<open>exec.LookPath\<close> finds); the outcome of
  \<^verbatim>\<open>json.Unmarshal\<close> on such an output; the initial environment; what
  \<^verbatim>\<open>os.Executable\<close> returns; whether a descriptor is a terminal; cobra's flag parsing;
  and the functions of Go's standard library that are taken as they are
  (\<^verbatim>\<open>filepath.Join\<close>, \<^verbatim>\<open>filepath.Dir\<close>, \<^verbatim>\<open>filepath.IsAbs\<close>, \<^verbatim>\<open>strings.TrimSpace\<close>,
  \<^verbatim>\<open>json.MarshalIndent\<close>, the verb \<^verbatim>\<open>%q\<close>).
\<close>

record world =
  result :: "call list \<Rightarrow> call \<Rightarrow> error option"
  statSize :: "call list \<Rightarrow> string \<Rightarrow> nat"
  returned :: "call list \<Rightarrow> call \<Rightarrow> string"
  unmarshalInspect :: "string \<Rightarrow> error + inspectResult list"
  unmarshalConfig :: "string \<Rightarrow> error + EntrypointInfo list"
  environ0 :: "string \<Rightarrow> string"
  executable :: "error + string"
  IsTerminal :: "int \<Rightarrow> bool"
  cobraParse :: "string list \<Rightarrow> parsed"
  filepath_Join :: "string list \<Rightarrow> string"
  filepath_Dir :: "string \<Rightarrow> string"
  filepath_IsAbs :: "string \<Rightarrow> bool"
  TrimSpace :: "string \<Rightarrow> string"
  MarshalIndent :: "EntrypointInfo \<Rightarrow> error + string"
  Quote :: "string \<Rightarrow> string"

text \<open>Making a call: ask the world, extend the run.\<close>

definition sys :: "world \<Rightarrow> call \<Rightarrow> call list \<Rightarrow> error option \<times> call list" where
  "sys w c tr = (result w tr c, tr @ [c])"

section \<open>The podman client\<close>

text \<open>\<^verbatim>\<open>PullImage\<close>: \<^verbatim>\<open>switch pullPolicy\<close> with the cases \<^verbatim>\<open>"always"\<close>, \<^verbatim>\<open>"never"\<close> and
  \<^verbatim>\<open>default\<close>.\<close>

definition PullImage :: "world \<Rightarrow> string \<Rightarrow> string \<Rightarrow> call list \<Rightarrow> error option \<times> call list" where
  "PullImage w img pullPolicy tr =
     (if pullPolicy = ''always'' then sys w (Exec ''podman'' [''pull'', img]) tr
      else if pullPolicy = ''never'' then
        (case sys w (Exec ''podman'' [''image'', ''exists'', img]) tr of
           (Some e, tr1) \<Rightarrow>
             (Some (Error (''image '' @ img @ '' not found and pull policy is ''
                      @ [CHR 0x27] @ ''never'' @ [CHR 0x27]) Plain), tr1)
         | (None, tr1) \<Rightarrow> (None, tr1))
      else
        (case sys w (Exec ''podman'' [''image'', ''exists'', img]) tr of
           (Some e, tr1) \<Rightarrow> sys w (Exec ''podman'' [''pull'', img]) tr1
         | (None, tr1) \<Rightarrow> (None, tr1)))"

text \<open>\<^verbatim>\<open>ContainerInfo\<close>, and \<^verbatim>\<open>InspectContainer\<close>: the command's failure, the parse
  failure, the empty result list, and the first result.\<close>

record ContainerInfo =
  ID :: string
  State :: string
  PID :: int

definition InspectContainer ::
  "world \<Rightarrow> string \<Rightarrow> call list \<Rightarrow> (error + ContainerInfo) \<times> call list" where
  "InspectContainer w nameOrID tr =
     (let c = Exec ''podman'' [''container'', ''inspect'', ''--format'', ''json'', nameOrID] in
      case sys w c tr of
        (Some e, tr1) \<Rightarrow> (Inl (Errorf_w (''inspecting container '' @ nameOrID @ '': '') e []), tr1)
      | (None, tr1) \<Rightarrow>
          (case unmarshalInspect w (returned w tr c) of
             Inl e \<Rightarrow> (Inl (Errorf_w ''parsing inspect output: '' e []), tr1)
           | Inr [] \<Rightarrow> (Inl (Error (''no inspect data for '' @ nameOrID) Plain), tr1)
           | Inr (r # rs) \<Rightarrow>
               (Inr \<lparr>ID = ir_ID r, State = ir_Status r, PID = ir_PID r\<rparr>, tr1)))"

text \<open>The error of a failed \<^verbatim>\<open>podman mount\<close>: the trimmed standard error of the command
  when it is an \<^verbatim>\<open>*exec.ExitError\<close>, the wrapped error otherwise.\<close>

definition mountError :: "world \<Rightarrow> string \<Rightarrow> error \<Rightarrow> error" where
  "mountError w pre e =
     (case kind e of
        ExitStatus code err_out \<Rightarrow> Error (pre @ TrimSpace w err_out) Plain
      | _ \<Rightarrow> Errorf_w pre e [])"

definition MountContainer ::
  "world \<Rightarrow> string \<Rightarrow> call list \<Rightarrow> (error + string) \<times> call list" where
  "MountContainer w nameOrID tr =
     (let c = Exec ''podman'' [''mount'', nameOrID] in
      case sys w c tr of
        (Some e, tr1) \<Rightarrow> (Inl (mountError w (''mounting container '' @ nameOrID @ '': '') e), tr1)
      | (None, tr1) \<Rightarrow> (Inr (TrimSpace w (returned w tr c)), tr1))"

definition UnmountContainer :: "world \<Rightarrow> string \<Rightarrow> call list \<Rightarrow> error option \<times> call list" where
  "UnmountContainer w nameOrID tr = sys w (Exec ''podman'' [''unmount'', nameOrID]) tr"

definition MountImage ::
  "world \<Rightarrow> string \<Rightarrow> call list \<Rightarrow> (error + string) \<times> call list" where
  "MountImage w img tr =
     (let c = Exec ''podman'' [''image'', ''mount'', img] in
      case sys w c tr of
        (Some e, tr1) \<Rightarrow> (Inl (mountError w (''mounting image '' @ img @ '': '') e), tr1)
      | (None, tr1) \<Rightarrow> (Inr (TrimSpace w (returned w tr c)), tr1))"

definition UnmountImage :: "world \<Rightarrow> string \<Rightarrow> call list \<Rightarrow> error option \<times> call list" where
  "UnmountImage w img tr = sys w (Exec ''podman'' [''image'', ''unmount'', img]) tr"

definition InspectContainerEntrypoint ::
  "world \<Rightarrow> string \<Rightarrow> call list \<Rightarrow> (error + EntrypointInfo) \<times> call list" where
  "InspectContainerEntrypoint w nameOrID tr =
     (let c = Exec ''podman'' [''container'', ''inspect'', ''--format'', ''json'', nameOrID] in
      case sys w c tr of
        (Some e, tr1) \<Rightarrow> (Inl (Errorf_w (''inspecting container '' @ nameOrID @ '': '') e []), tr1)
      | (None, tr1) \<Rightarrow>
          (case unmarshalConfig w (returned w tr c) of
             Inl e \<Rightarrow> (Inl (Errorf_w ''parsing container inspect output: '' e []), tr1)
           | Inr [] \<Rightarrow> (Inl (Error (''no inspect data for '' @ nameOrID) Plain), tr1)
           | Inr (r # rs) \<Rightarrow> (Inr r, tr1)))"

definition InspectImageEntrypoint ::
  "world \<Rightarrow> string \<Rightarrow> call list \<Rightarrow> (error + EntrypointInfo) \<times> call list" where
  "InspectImageEntrypoint w img tr =
     (let c = Exec ''podman'' [''image'', ''inspect'', ''--format'', ''json'', img] in
      case sys w c tr of
        (Some e, tr1) \<Rightarrow> (Inl (Errorf_w (''inspecting image '' @ img @ '': '') e []), tr1)
      | (None, tr1) \<Rightarrow>
          (case unmarshalConfig w (returned w tr c) of
             Inl e \<Rightarrow> (Inl (Errorf_w ''parsing image inspect output: '' e []), tr1)
           | Inr [] \<Rightarrow> (Inl (Error (''no inspect data for '' @ img) Plain), tr1)
           | Inr (r # rs) \<Rightarrow> (Inr r, tr1)))"

definition NamespacePath :: "int \<Rightarrow> string \<Rightarrow> string" where
  "NamespacePath pid nstype = ''/proc/'' @ itoa pid @ ''/ns/'' @ nstype"

section \<open>Constants of \<^verbatim>\<open>golang.org/x/sys/unix\<close> (Linux values)\<close>

definition CLONE_NEWNS :: nat where "CLONE_NEWNS = 0x00020000"
definition CLONE_NEWUTS :: nat where "CLONE_NEWUTS = 0x04000000"
definition CLONE_NEWIPC :: nat where "CLONE_NEWIPC = 0x08000000"
definition CLONE_NEWPID :: nat where "CLONE_NEWPID = 0x20000000"
definition CLONE_NEWNET :: nat where "CLONE_NEWNET = 0x40000000"
definition MS_BIND :: nat where "MS_BIND = 0x1000"
definition MS_REC :: nat where "MS_REC = 0x4000"
definition MS_PRIVATE :: nat where "MS_PRIVATE = 0x40000"
definition MNT_DETACH :: nat where "MNT_DETACH = 2"
definition OPEN_TREE_CLONE :: nat where "OPEN_TREE_CLONE = 1"
definition AT_RECURSIVE :: nat where "AT_RECURSIVE = 0x8000"
definition MOVE_MOUNT_F_EMPTY_PATH :: nat where "MOVE_MOUNT_F_EMPTY_PATH = 4"
definition PR_SET_PDEATHSIG :: nat where "PR_SET_PDEATHSIG = 1"
definition PR_SET_NO_NEW_PRIVS :: nat where "PR_SET_NO_NEW_PRIVS = 38"
definition SIGKILL :: nat where "SIGKILL = 9"

section \<open>Overlay construction\<close>

definition overlayBasePath :: string where
  "overlayBasePath = ''/tmp/.podman-debug-overlay''"

text \<open>The loop \<^verbatim>\<open>for _, d := range dirs { if err := os.MkdirAll(d, 0755); err != nil { return
  ..., fmt.Errorf("creating %s: %w", d, err) } }\<close> of \<^verbatim>\<open>createOverlay\<close> and
  \<^verbatim>\<open>mountNixStore\<close>.\<close>

fun mkdirEach :: "world \<Rightarrow> string list \<Rightarrow> call list \<Rightarrow> error option \<times> call list" where
  "mkdirEach w [] tr = (None, tr)"
| "mkdirEach w (d # ds) tr =
     (case sys w (MkdirAll d 493) tr of
        (Some e, tr1) \<Rightarrow> (Some (Errorf_w (''creating '' @ d @ '': '') e []), tr1)
      | (None, tr1) \<Rightarrow> mkdirEach w ds tr1)"

definition createOverlay ::
  "world \<Rightarrow> string \<Rightarrow> bool \<Rightarrow> call list \<Rightarrow> (error + string) \<times> call list" where
  "createOverlay w lowerDir writable tr =
     (case sys w (MkdirAll overlayBasePath 493) tr of
        (Some e, tr1) \<Rightarrow> (Inl (Errorf_w ''creating overlay base: '' e []), tr1)
      | (None, tr1) \<Rightarrow>
     (case sys w (Mount ''tmpfs'' overlayBasePath ''tmpfs'' 0 ''size=1G'') tr1 of
        (Some e, tr2) \<Rightarrow> (Inl (Errorf_w ''mounting tmpfs: '' e []), tr2)
      | (None, tr2) \<Rightarrow>
     (let upperDir = overlayBasePath @ ''/upper'';
          workDir = overlayBasePath @ ''/work'';
          mergedDir = overlayBasePath @ ''/merged''
      in case mkdirEach w [upperDir, workDir, mergedDir] tr2 of
        (Some e, tr3) \<Rightarrow> (Inl e, tr3)
      | (None, tr3) \<Rightarrow>
     (let overlayOpts = ''lowerdir='' @ lowerDir @ '',upperdir='' @ upperDir
                          @ '',workdir='' @ workDir
      in case sys w (Mount ''overlay'' mergedDir ''overlay'' 0 overlayOpts) tr3 of
        (Some e, tr4) \<Rightarrow> (Inl (Errorf_w ''mounting overlay: '' e []), tr4)
      | (None, tr4) \<Rightarrow>
          if writable then
            (case sys w (Mount lowerDir mergedDir [] (MS_BIND OR MS_REC) []) tr4 of
               (Some e, tr5) \<Rightarrow> (Inl (Errorf_w ''rebinding root into overlay: '' e []), tr5)
             | (None, tr5) \<Rightarrow> (Inr mergedDir, tr5))
          else (Inr mergedDir, tr4)))))"

text \<open>\<^verbatim>\<open>mountNixStore\<close>; the descriptor of the cloned tree is named by the path it was
  cloned from.\<close>

definition mountNixStore ::
  "world \<Rightarrow> string \<Rightarrow> string \<Rightarrow> string \<Rightarrow> call list \<Rightarrow> error option \<times> call list" where
  "mountNixStore w nixTreeFD nixMountPoint base tr =
     (let nixTmpMount = base @ ''/nix-lower'' in
      case sys w (MkdirAll nixTmpMount 493) tr of
        (Some e, tr1) \<Rightarrow> (Some (Errorf_w ''creating nix temp mount: '' e []), tr1)
      | (None, tr1) \<Rightarrow>
     (case sys w (MoveMount nixTreeFD nixTmpMount MOVE_MOUNT_F_EMPTY_PATH) tr1 of
        (Some e, tr2) \<Rightarrow> (Some (Errorf_w ''move_mount nix to temp: '' e []), tr2)
      | (None, tr2) \<Rightarrow>
     (let nixUpperDir = base @ ''/nix-upper'';
          nixWorkDir = base @ ''/nix-work''
      in case mkdirEach w [nixUpperDir, nixWorkDir] tr2 of
        (Some e, tr3) \<Rightarrow> (Some e, tr3)
      | (None, tr3) \<Rightarrow>
     (let nixOverlayOpts = ''lowerdir='' @ nixTmpMount @ '',upperdir='' @ nixUpperDir
                             @ '',workdir='' @ nixWorkDir
      in case sys w (Mount ''overlay'' nixMountPoint ''overlay'' 0 nixOverlayOpts) tr3 of
        (Some e, tr4) \<Rightarrow> (Some (Errorf_w ''mounting nix overlay: '' e []), tr4)
      | (None, tr4) \<Rightarrow> (None, tr4)))))"

text \<open>One round of the loop of \<^verbatim>\<open>bindHostMounts\<close> and \<^verbatim>\<open>bindSnapshotMounts\<close>; each
  \<^verbatim>\<open>continue\<close> ends the round.\<close>

definition bindDir :: "world \<Rightarrow> string \<Rightarrow> string \<Rightarrow> call list \<Rightarrow> call list" where
  "bindDir w mergedDir mp tr =
     (let target = mergedDir @ mp in
      case sys w (Stat mp) tr of
        (Some e, tr1) \<Rightarrow> tr1
      | (None, tr1) \<Rightarrow>
          (case sys w (MkdirAll target 493) tr1 of
             (Some e, tr2) \<Rightarrow> tr2
           | (None, tr2) \<Rightarrow> snd (sys w (Mount mp target [] (MS_BIND OR MS_REC) []) tr2)))"

text \<open>One round of the loop of \<^verbatim>\<open>bindNetworkConfig\<close>.\<close>

definition bindNetworkFile :: "world \<Rightarrow> string \<Rightarrow> string \<Rightarrow> call list \<Rightarrow> call list" where
  "bindNetworkFile w mergedDir configFile tr =
     (case sys w (Stat configFile) tr of
        (Some e, tr1) \<Rightarrow> tr1
      | (None, tr1) \<Rightarrow>
          if statSize w tr configFile = 0 then tr1
          else
            (let target = mergedDir @ configFile in
             case sys w (MkdirAll (filepath_Dir w target) 493) tr1 of
               (Some e, tr2) \<Rightarrow> tr2
             | (None, tr2) \<Rightarrow>
                 (case sys w (Stat target) tr2 of
                    (err, tr3) \<Rightarrow>
                      if IsNotExist err then
                        (case sys w (Create target) tr3 of
                           (Some e, tr4) \<Rightarrow> tr4
                         | (None, tr4) \<Rightarrow> snd (sys w (Mount configFile target [] MS_BIND []) tr4))
                      else snd (sys w (Mount configFile target [] MS_BIND []) tr3))))"

definition bindNetworkConfig :: "world \<Rightarrow> string \<Rightarrow> call list \<Rightarrow> call list" where
  "bindNetworkConfig w mergedDir tr =
     foldl (\<lambda>t configFile. bindNetworkFile w mergedDir configFile t) tr
       [''/etc/resolv.conf'', ''/etc/hosts'', ''/etc/hostname'']"

definition bindHostMounts :: "world \<Rightarrow> string \<Rightarrow> call list \<Rightarrow> call list" where
  "bindHostMounts w mergedDir tr =
     bindNetworkConfig w mergedDir
       (foldl (\<lambda>t mp. bindDir w mergedDir mp t) tr [''/proc'', ''/sys'', ''/dev''])"

definition bindSnapshotMounts :: "world \<Rightarrow> string \<Rightarrow> call list \<Rightarrow> call list" where
  "bindSnapshotMounts w mergedDir tr =
     bindNetworkConfig w mergedDir
       (foldl (\<lambda>t mp. bindDir w mergedDir mp t)
          (snd (sys w (MkdirAll (mergedDir @ ''/proc'') 493) tr)) [''/sys'', ''/dev''])"

section \<open>Payload: helper scripts and entrypoint metadata\<close>

definition builtinsDir :: string where "builtinsDir = ''/.podman-debug/bin''"
definition metadataDir :: string where "metadataDir = ''/.podman-debug''"

definition copyBinary :: "world \<Rightarrow> string \<Rightarrow> string \<Rightarrow> call list \<Rightarrow> call list" where
  "copyBinary w dir name tr =
     (case executable w of
        Inl e \<Rightarrow> tr
      | Inr self \<Rightarrow>
          (case sys w (Open self) tr of
             (Some e, tr1) \<Rightarrow> tr1
           | (None, tr1) \<Rightarrow>
               (case sys w (OpenFile (filepath_Join w [dir, name]) 493) tr1 of
                  (Some e, tr2) \<Rightarrow> tr2
                | (None, tr2) \<Rightarrow> snd (sys w (Copy (filepath_Join w [dir, name]) self) tr2))))"

definition writeScript :: "world \<Rightarrow> string \<Rightarrow> string \<Rightarrow> content \<Rightarrow> call list \<Rightarrow> call list" where
  "writeScript w dir name cont tr = snd (sys w (WriteFile (filepath_Join w [dir, name]) cont 493) tr)"

text \<open>\<^verbatim>\<open>strings.ContainsAny\<close> for a set of ASCII characters.\<close>

definition ContainsAny :: "string \<Rightarrow> string \<Rightarrow> bool" where
  "ContainsAny s chars = (filter (\<lambda>c. List.member chars c) s \<noteq> [])"

definition formatArgs :: "world \<Rightarrow> string list \<Rightarrow> string" where
  "formatArgs w args =
     ''['' @ Join_strings
        (map (\<lambda>a. if ContainsAny a [CHR '' '', CHR 0x09, CHR 0x22, CHR 0x27, CHR 0x5C]
                   then Quote w a else a) args) '', '' @ '']''"

definition summaryText :: "world \<Rightarrow> EntrypointInfo \<Rightarrow> string" where
  "summaryText w ep =
     (let effective = Entrypoint ep @ Cmd ep in
      (if Entrypoint ep \<noteq> [] then ''ENTRYPOINT '' @ formatArgs w (Entrypoint ep) @ [CHR 0x0A]
       else ''ENTRYPOINT (not set)'' @ [CHR 0x0A])
      @ (if Cmd ep \<noteq> [] then ''CMD '' @ formatArgs w (Cmd ep) @ [CHR 0x0A]
         else ''CMD (not set)'' @ [CHR 0x0A])
      @ (if WorkingDir ep \<noteq> [] then ''WORKDIR '' @ WorkingDir ep @ [CHR 0x0A] else [])
      @ (if effective \<noteq> []
         then [CHR 0x0A] @ ''Effective command:'' @ [CHR 0x0A] @ ''  ''
              @ Join_strings effective '' '' @ [CHR 0x0A]
         else [CHR 0x0A] @ ''Effective command: (none)'' @ [CHR 0x0A]))"

text \<open>\<^verbatim>\<open>writeEntrypointMetadata\<close>. Every \<^verbatim>\<open>os.WriteFile\<close> has its error discarded; each
  plain-text file is written under its own \<^verbatim>\<open>if\<close>.\<close>

definition writeEntrypointMetadata ::
  "world \<Rightarrow> string \<Rightarrow> EntrypointInfo \<Rightarrow> call list \<Rightarrow> call list" where
  "writeEntrypointMetadata w mergedDir ep tr =
     (let metaDir = mergedDir @ metadataDir;
          tr1 = snd (sys w (MkdirAll metaDir 493) tr)
      in case MarshalIndent w ep of
        Inl e \<Rightarrow> tr1
      | Inr data \<Rightarrow>
     (let tr2 = snd (sys w (WriteFile (filepath_Join w [metaDir, ''entrypoint.json''])
                              (Bytes data) 420) tr1);
          tr3 = (if Entrypoint ep \<noteq> []
                 then snd (sys w (WriteFile (filepath_Join w [metaDir, ''ep_bin''])
                                    (Bytes (Join_strings (Entrypoint ep) '' '')) 420) tr2)
                 else tr2);
          tr4 = (if Cmd ep \<noteq> []
                 then snd (sys w (WriteFile (filepath_Join w [metaDir, ''ep_cmd''])
                                    (Bytes (Join_strings (Cmd ep) '' '')) 420) tr3)
                 else tr3);
          tr5 = (if WorkingDir ep \<noteq> []
                 then snd (sys w (WriteFile (filepath_Join w [metaDir, ''ep_workdir''])
                                    (Bytes (WorkingDir ep)) 420) tr4)
                 else tr4);
          effective = Entrypoint ep @ Cmd ep;
          tr6 = (if effective \<noteq> []
                 then snd (sys w (WriteFile (filepath_Join w [metaDir, ''ep_effective''])
                                    (Bytes (Join_strings effective '' '')) 420) tr5)
                 else tr5)
      in snd (sys w (WriteFile (filepath_Join w [metaDir, ''entrypoint.txt''])
                       (Bytes (summaryText w ep)) 420) tr6)))"

definition writeBuiltins ::
  "world \<Rightarrow> string \<Rightarrow> EntrypointInfo option \<Rightarrow> call list \<Rightarrow> call list" where
  "writeBuiltins w mergedDir ep tr =
     (let binDir = mergedDir @ builtinsDir in
      case sys w (MkdirAll binDir 493) tr of
        (Some e, tr1) \<Rightarrow> tr1
      | (None, tr1) \<Rightarrow>
          (let tr2 = writeScript w binDir ''install'' installScript tr1;
               tr3 = writeScript w binDir ''uninstall'' uninstallScript tr2;
               tr4 = writeScript w binDir ''builtins'' builtinsScript tr3;
               tr5 = writeScript w binDir ''entrypoint'' entrypointScript tr4;
               tr6 = copyBinary w binDir ''init'' tr5
           in case ep of
                None \<Rightarrow> tr6
              | Some e \<Rightarrow> writeEntrypointMetadata w mergedDir e tr6))"

section \<open>Environment of the shell\<close>

definition writeNixConfig :: "world \<Rightarrow> string \<Rightarrow> call list \<Rightarrow> call list" where
  "writeNixConfig w mergedDir tr =
     (let nixConfigDir = mergedDir @ ''/etc/nix'' in
      case sys w (MkdirAll nixConfigDir 493) tr of
        (None, tr1) \<Rightarrow> snd (sys w (WriteFile (nixConfigDir @ ''/nix.conf'') nixConfig 420) tr1)
      | (Some e, tr1) \<Rightarrow> tr1)"

text \<open>The environment of the process: the initial one, changed by the \<^verbatim>\<open>os.Setenv\<close>
  calls of the run (none of them can fail: the names are constants, and a value is
  either a constant or a path).\<close>

primrec envAfter :: "(string \<Rightarrow> string) \<Rightarrow> call list \<Rightarrow> string \<Rightarrow> string" where
  "envAfter env [] = env"
| "envAfter env (c # cs) =
     envAfter (case c of Setenv k v \<Rightarrow> env(k := v) | _ \<Rightarrow> env) cs"

definition Getenv :: "world \<Rightarrow> call list \<Rightarrow> string \<Rightarrow> string" where
  "Getenv w tr k = envAfter (environ0 w) tr k"

definition setupEnvironment :: "world \<Rightarrow> string \<Rightarrow> call list \<Rightarrow> call list" where
  "setupEnvironment w shell tr =
     (let tr1 = snd (sys w (Setenv ''HOME'' ''/root'') tr);
          nixProfilePath = filepath_Join w [''/nix'', ''var'', ''nix'', ''profiles'', ''default''];
          nixBinPath = filepath_Join w [nixProfilePath, ''bin''];
          userProfileBin = ''/root/.nix-profile/bin'';
          containerPath = ''/usr/local/sbin:/usr/local/bin:/usr/sbin:/usr/bin:/sbin:/bin'';
          tr2 = snd (sys w (Setenv ''PATH'' (builtinsDir @ '':'' @ userProfileBin @ '':''
                                               @ nixBinPath @ '':'' @ containerPath)) tr1);
          tr3 = (if Getenv w tr2 ''TERM'' = []
                 then snd (sys w (Setenv ''TERM'' ''xterm-256color'') tr2) else tr2);
          tr4 = (if Getenv w tr3 ''NIX_SSL_CERT_FILE'' = []
                 then (let nixCACert = filepath_Join w
                             [nixProfilePath, ''etc'', ''ssl'', ''certs'', ''ca-bundle.crt'']
                       in case sys w (Stat nixCACert) tr3 of
                            (None, t) \<Rightarrow> snd (sys w (Setenv ''NIX_SSL_CERT_FILE'' nixCACert) t)
                          | (Some e, t) \<Rightarrow> t)
                 else tr3);
          tr5 = snd (sys w (Setenv ''SHELL'' shell) tr4)
      in snd (sys w (Setenv ''PS1'' ''debug> '') tr5))"

section \<open>Running the shell\<close>

definition DetectShell :: "world \<Rightarrow> string \<Rightarrow> string" where
  "DetectShell w preference =
     (let nixBinPath = ''/nix/var/nix/profiles/default/bin'' in
      if preference \<noteq> [] \<and> preference \<noteq> ''auto'' then
        (if filepath_IsAbs w preference then preference
         else filepath_Join w [nixBinPath, preference])
      else filepath_Join w [nixBinPath, ''bash''])"

text \<open>\<^verbatim>\<open>exec.Command(name, arg...)\<close>.\<close>

definition Command :: "string \<Rightarrow> string list \<Rightarrow> ExecCmd" where
  "Command name arg = \<lparr>Path = name, Args = name # arg, Cloneflags = 0\<rparr>"

text \<open>The exit code and error that end \<^verbatim>\<open>cmd.Wait\<close> and \<^verbatim>\<open>cmd.Run\<close>: the type assertion
  \<^verbatim>\<open>err.(*exec.ExitError)\<close>.\<close>

definition isExitError :: "error \<Rightarrow> int option" where
  "isExitError e = (case kind e of ExitStatus code err_out \<Rightarrow> Some code | _ \<Rightarrow> None)"

text \<open>
  \<^verbatim>\<open>runShell\<close>. The result is the pair \<^verbatim>\<open>(exitCode, err)\<close>. In the branch with a
  pseudo-terminal the two copying goroutines are one call (the function goes on when
  the output side is done); after \<^verbatim>\<open>cmd.Wait\<close> the function ends with
  \<^verbatim>\<open>return exitCode, nil\<close> whatever the error was.
\<close>

definition runShell ::
  "world \<Rightarrow> ExecCmd \<Rightarrow> Streams \<Rightarrow> bool \<Rightarrow> call list \<Rightarrow> (int \<times> error option) \<times> call list" where
  "runShell w cmd streams interactive tr =
     (let isInteractive = (Stdin streams \<noteq> None \<and> interactive) in
      if isInteractive then
        (case sys w (PtyStart cmd) tr of
           (Some e, tr1) \<Rightarrow> ((125, Some e), tr1)
         | (None, tr1) \<Rightarrow>
             (let tr2 = (case Stdin streams of
                           None \<Rightarrow> tr1
                         | Some stdin \<Rightarrow>
                             (case sys w (PtyGetsize stdin) tr1 of
                                (None, t) \<Rightarrow> snd (sys w PtySetsize t)
                              | (Some e, t) \<Rightarrow> t));
                  tr3 = snd (sys w PtyPump tr2)
              in case sys w (CmdWait cmd) tr3 of
                   (None, tr4) \<Rightarrow> ((0, None), tr4)
                 | (Some e, tr4) \<Rightarrow>
                     (case isExitError e of
                        Some code \<Rightarrow> ((code, None), tr4)
                      | None \<Rightarrow> ((0, None), tr4))))
      else
        (case sys w (CmdRun cmd streams) tr of
           (None, tr1) \<Rightarrow> ((0, None), tr1)
         | (Some e, tr1) \<Rightarrow>
             (case isExitError e of
                Some code \<Rightarrow> ((code, None), tr1)
              | None \<Rightarrow> ((125, Some e), tr1))))"

definition initBinaryPath :: string where
  "initBinaryPath = ''/.podman-debug/bin/init''"

definition wrapWithPIDNS :: "string \<Rightarrow> string list \<Rightarrow> ExecCmd" where
  "wrapWithPIDNS shell shellArgs =
     (let args = [initBinaryPath, ''--init-proc'', shell] @ shellArgs in
      (Command initBinaryPath (tl args))\<lparr>Cloneflags := CLONE_NEWPID\<rparr>)"

section \<open>Sessions\<close>

text \<open>\<^verbatim>\<open>Mode\<close> and \<^verbatim>\<open>Options\<close>; the field \<^verbatim>\<open>Entrypoint\<close> of \<^verbatim>\<open>Options\<close> is \<open>OptEntrypoint\<close>
  here, the name \<open>Entrypoint\<close> being the field of \<^verbatim>\<open>EntrypointInfo\<close>.\<close>

datatype Mode = ModeLive | ModeSnapshot | ModeImage

record Options =
  Mode :: Mode
  HostMountpoint :: string
  Writable :: bool
  OptEntrypoint :: "EntrypointInfo option"

subsection \<open>Live mode\<close>

text \<open>The entries of the map \<^verbatim>\<open>nsPaths\<close>, in the order of the map literal.\<close>

definition nsPaths :: "int \<Rightarrow> (string \<times> nat) list" where
  "nsPaths pid =
     [(NamespacePath pid ''mnt'', CLONE_NEWNS),
      (NamespacePath pid ''pid'', CLONE_NEWPID),
      (NamespacePath pid ''net'', CLONE_NEWNET),
      (NamespacePath pid ''ipc'', CLONE_NEWIPC),
      (NamespacePath pid ''uts'', CLONE_NEWUTS)]"

text \<open>
  The first loop of \<^verbatim>\<open>setupLiveMode\<close>, over the entries of the map \<^verbatim>\<open>nsPaths\<close> in the
  order \<open>ents\<close> in which \<^verbatim>\<open>range\<close> yields them (Go leaves that order open, so it is an
  argument). The result is the slice \<^verbatim>\<open>optionalNS\<close>: the entries whose file could be
  opened, each descriptor named by its path.
\<close>

fun openOptional ::
  "world \<Rightarrow> (string \<times> nat) list \<Rightarrow> call list \<Rightarrow> (string \<times> nat) list \<times> call list" where
  "openOptional w [] tr = ([], tr)"
| "openOptional w ((path, clone) # ents) tr =
     (if clone = CLONE_NEWNS then openOptional w ents tr
      else
        (case sys w (Open path) tr of
           (Some e, tr1) \<Rightarrow> openOptional w ents tr1
         | (None, tr1) \<Rightarrow>
             (case openOptional w ents tr1 of
                (optionalNS, tr2) \<Rightarrow> ((path, clone) # optionalNS, tr2))))"

text \<open>The second loop: \<^verbatim>\<open>setns\<close> on the first entry for the PID namespace, result
  discarded, then \<^verbatim>\<open>break\<close>.\<close>

fun joinPID :: "world \<Rightarrow> (string \<times> nat) list \<Rightarrow> call list \<Rightarrow> call list" where
  "joinPID w [] tr = tr"
| "joinPID w ((fd, clone) # ns) tr =
     (if clone = CLONE_NEWPID then snd (sys w (Setns fd clone) tr)
      else joinPID w ns tr)"

text \<open>The third loop: \<^verbatim>\<open>setns\<close> on every other entry, result discarded.\<close>

fun joinRest :: "world \<Rightarrow> (string \<times> nat) list \<Rightarrow> call list \<Rightarrow> call list" where
  "joinRest w [] tr = tr"
| "joinRest w ((fd, clone) # ns) tr =
     (if clone = CLONE_NEWPID then joinRest w ns tr
      else joinRest w ns (snd (sys w (Setns fd clone) tr)))"

text \<open>The part of \<^verbatim>\<open>setupLiveMode\<close> after \<^verbatim>\<open>createOverlay\<close>: the two branches of
  \<^verbatim>\<open>if writable\<close>.\<close>

definition mountNixInto ::
  "world \<Rightarrow> string \<Rightarrow> bool \<Rightarrow> string \<Rightarrow> call list \<Rightarrow> (error + string) \<times> call list" where
  "mountNixInto w nixTreeFD writable mergedDir tr =
     (let nixMountPoint = mergedDir @ ''/nix'' in
      if writable then
        (case sys w (MkdirAll nixMountPoint 493) tr of
           (Some e, tr1) \<Rightarrow> (Inl (Errorf_w ''creating /nix: '' e []), tr1)
         | (None, tr1) \<Rightarrow>
             (case mountNixStore w nixTreeFD nixMountPoint overlayBasePath tr1 of
                (Some e, tr2) \<Rightarrow> (Inl e, tr2)
              | (None, tr2) \<Rightarrow> (Inr mergedDir, tr2)))
      else
        (case sys w (MkdirAll nixMountPoint 493) tr of
           (Some e, tr1) \<Rightarrow> (Inl (Errorf_w ''creating /nix in overlay: '' e []), tr1)
         | (None, tr1) \<Rightarrow>
             (case mountNixStore w nixTreeFD nixMountPoint overlayBasePath tr1 of
                (Some e, tr2) \<Rightarrow> (Inl e, tr2)
              | (None, tr2) \<Rightarrow> (Inr mergedDir, bindHostMounts w mergedDir tr2))))"

definition setupLiveMode ::
  "world \<Rightarrow> (string \<times> nat) list \<Rightarrow> int \<Rightarrow> string \<Rightarrow> bool \<Rightarrow> call list
     \<Rightarrow> (error + string) \<times> call list" where
  "setupLiveMode w ents pid nixTreeFD writable tr =
     (let mountNSPath = NamespacePath pid ''mnt'' in
      case sys w (Open mountNSPath) tr of
        (Some e, tr1) \<Rightarrow>
          (Inl (Errorf_w (''opening mount namespace '' @ mountNSPath @ '': '') e []), tr1)
      | (None, tr1) \<Rightarrow>
     (case openOptional w ents tr1 of (optionalNS, tr2) \<Rightarrow>
     (case sys w (Unshare CLONE_NEWNS) tr2 of
        (Some e, tr3) \<Rightarrow> (Inl (Errorf_w ''unshare mount namespace: '' e []), tr3)
      | (None, tr3) \<Rightarrow>
     (let tr4 = joinPID w optionalNS tr3 in
      case sys w (Setns mountNSPath CLONE_NEWNS) tr4 of
        (Some e, tr5) \<Rightarrow> (Inl (Errorf_w ''joining mount namespace: '' e []), tr5)
      | (None, tr5) \<Rightarrow>
     (case sys w (Unshare CLONE_NEWNS) tr5 of
        (Some e, tr6) \<Rightarrow>
          (Inl (Errorf_w ''unshare mount namespace (private copy): '' e []), tr6)
      | (None, tr6) \<Rightarrow>
     (case sys w (Mount [] ''/'' [] (MS_REC OR MS_PRIVATE) []) tr6 of
        (Some e, tr7) \<Rightarrow> (Inl (Errorf_w ''making / private: '' e []), tr7)
      | (None, tr7) \<Rightarrow>
     (let tr8 = joinRest w optionalNS tr7 in
      case createOverlay w ''/'' writable tr8 of
        (Inl e, tr9) \<Rightarrow> (Inl e, tr9)
      | (Inr mergedDir, tr9) \<Rightarrow> mountNixInto w nixTreeFD writable mergedDir tr9)))))))"

text \<open>
  \<^verbatim>\<open>ExecLive\<close>: the worker goroutine, and the result it sends on \<^verbatim>\<open>resChan\<close>, which
  \<^verbatim>\<open>waitForResult\<close> returns. Closing descriptors and the forwarding of window-size
  signals have no part in the result and are left out.
\<close>

definition ExecLive ::
  "world \<Rightarrow> (string \<times> nat) list \<Rightarrow> int \<Rightarrow> string \<Rightarrow> string \<Rightarrow> string list \<Rightarrow> Streams
     \<Rightarrow> Options \<Rightarrow> call list \<Rightarrow> (int \<times> error option) \<times> call list" where
  "ExecLive w ents pid nixPath shell shellArgs streams opts tr =
     (let tr1 = snd (sys w (Prctl PR_SET_PDEATHSIG SIGKILL) tr);
          tr2 = snd (sys w (Prctl PR_SET_NO_NEW_PRIVS 1) tr1)
      in case sys w (OpenTree nixPath (OPEN_TREE_CLONE OR AT_RECURSIVE)) tr2 of
        (Some e, tr3) \<Rightarrow>
          ((125, Some (Errorf_w (''open_tree('' @ nixPath @ ''): '') e
                         '' (requires Linux 5.2+)'')), tr3)
      | (None, tr3) \<Rightarrow>
     (case setupLiveMode w ents pid nixPath (Writable opts) tr3 of
        (Inl e, tr4) \<Rightarrow> ((125, Some e), tr4)
      | (Inr mergedDir, tr4) \<Rightarrow>
     (let tr5 = writeNixConfig w mergedDir tr4;
          tr6 = writeBuiltins w mergedDir (OptEntrypoint opts) tr5
      in case sys w (Chroot mergedDir) tr6 of
        (Some e, tr7) \<Rightarrow> ((125, Some (Errorf_w ''chroot to overlay: '' e [])), tr7)
      | (None, tr7) \<Rightarrow>
     (case sys w (Chdir ''/'') tr7 of
        (Some e, tr8) \<Rightarrow> ((125, Some (Errorf_w ''chdir to /: '' e [])), tr8)
      | (None, tr8) \<Rightarrow>
     (let tr9 = setupEnvironment w shell tr8;
          cmd = Command shell shellArgs
      in case runShell w cmd streams (length shellArgs = 0) tr9 of
        (res, tr10) \<Rightarrow>
          (if Writable opts
           then (res, snd (sys w (Remove ''/nix'')
                             (snd (sys w (Unmount ''/nix'' MNT_DETACH) tr10))))
           else (res, tr10)))))))"

subsection \<open>Snapshot and image mode\<close>

definition setupSnapshotMode ::
  "world \<Rightarrow> string \<Rightarrow> string \<Rightarrow> call list \<Rightarrow> (error + string) \<times> call list" where
  "setupSnapshotMode w hostMountpoint nixTreeFD tr =
     (case createOverlay w hostMountpoint False tr of
        (Inl e, tr1) \<Rightarrow> (Inl e, tr1)
      | (Inr mergedDir, tr1) \<Rightarrow>
     (let nixMountPoint = mergedDir @ ''/nix'' in
      case sys w (MkdirAll nixMountPoint 493) tr1 of
        (Some e, tr2) \<Rightarrow> (Inl (Errorf_w ''creating /nix in overlay: '' e []), tr2)
      | (None, tr2) \<Rightarrow>
     (case mountNixStore w nixTreeFD nixMountPoint overlayBasePath tr2 of
        (Some e, tr3) \<Rightarrow> (Inl e, tr3)
      | (None, tr3) \<Rightarrow> (Inr mergedDir, bindSnapshotMounts w mergedDir tr3))))"

definition ExecSnapshot ::
  "world \<Rightarrow> string \<Rightarrow> string \<Rightarrow> string \<Rightarrow> string list \<Rightarrow> Streams \<Rightarrow> Options \<Rightarrow> call list
     \<Rightarrow> (int \<times> error option) \<times> call list" where
  "ExecSnapshot w nixPath hostMountpoint shell shellArgs streams opts tr =
     (let tr1 = snd (sys w (Prctl PR_SET_PDEATHSIG SIGKILL) tr);
          tr2 = snd (sys w (Prctl PR_SET_NO_NEW_PRIVS 1) tr1)
      in case sys w (OpenTree nixPath (OPEN_TREE_CLONE OR AT_RECURSIVE)) tr2 of
        (Some e, tr3) \<Rightarrow>
          ((125, Some (Errorf_w (''open_tree('' @ nixPath @ ''): '') e
                         '' (requires Linux 5.2+)'')), tr3)
      | (None, tr3) \<Rightarrow>
     (case sys w (Unshare CLONE_NEWNS) tr3 of
        (Some e, tr4) \<Rightarrow> ((125, Some (Errorf_w ''unshare mount namespace: '' e [])), tr4)
      | (None, tr4) \<Rightarrow>
     (case sys w (Mount [] ''/'' [] (MS_REC OR MS_PRIVATE) []) tr4 of
        (Some e, tr5) \<Rightarrow> ((125, Some (Errorf_w ''making / private: '' e [])), tr5)
      | (None, tr5) \<Rightarrow>
     (case setupSnapshotMode w hostMountpoint nixPath tr5 of
        (Inl e, tr6) \<Rightarrow> ((125, Some e), tr6)
      | (Inr mergedDir, tr6) \<Rightarrow>
     (let tr7 = writeNixConfig w mergedDir tr6;
          tr8 = writeBuiltins w mergedDir (OptEntrypoint opts) tr7
      in case sys w (Chroot mergedDir) tr8 of
        (Some e, tr9) \<Rightarrow> ((125, Some (Errorf_w ''chroot to overlay: '' e [])), tr9)
      | (None, tr9) \<Rightarrow>
     (case sys w (Chdir ''/'') tr9 of
        (Some e, tr10) \<Rightarrow> ((125, Some (Errorf_w ''chdir to /: '' e [])), tr10)
      | (None, tr10) \<Rightarrow>
     (let tr11 = setupEnvironment w shell tr10;
          cmd = wrapWithPIDNS shell shellArgs
      in runShell w cmd streams (length shellArgs = 0) tr11)))))))"

section \<open>The command\<close>

text \<open>\<^verbatim>\<open>isNotFound\<close>, on an \<^verbatim>\<open>error\<close> that may be \<^verbatim>\<open>nil\<close>.\<close>

definition isNotFound :: "error option \<Rightarrow> bool" where
  "isNotFound err =
     (case err of
        None \<Rightarrow> False
      | Some e \<Rightarrow>
          Contains (msg e) ''no container with name or ID'' \<or>
          Contains (msg e) ''no such container'' \<or>
          Contains (msg e) ''inspecting container'')"

definition resolveStreams :: "flags \<Rightarrow> Streams" where
  "resolveStreams fl =
     \<lparr>Stdin = (if flagInteractive fl then Some (File 0) else None),
      Stdout = Some (File 1),
      Stderr = Some (File 2)\<rparr>"

text \<open>\<^verbatim>\<open>setupTerminal\<close> returns the function to run at the end; here, whether that
  function restores the terminal (\<open>True\<close>) or does nothing.\<close>

definition setupTerminal :: "world \<Rightarrow> flags \<Rightarrow> call list \<Rightarrow> bool \<times> call list" where
  "setupTerminal w fl tr =
     (if flagTTY fl \<and> flagInteractive fl \<and> flagCommand fl = [] then
        (if IsTerminal w 0 then
           (case sys w (MakeRaw 0) tr of
              (None, tr1) \<Rightarrow> (True, tr1)
            | (Some e, tr1) \<Rightarrow> (False, tr1))
         else (False, tr))
      else (False, tr))"

definition restoreTerminal :: "world \<Rightarrow> bool \<Rightarrow> call list \<Rightarrow> call list" where
  "restoreTerminal w restore tr = (if restore then snd (sys w (Restore 0) tr) else tr)"

definition runLiveDebug ::
  "world \<Rightarrow> (string \<times> nat) list \<Rightarrow> flags \<Rightarrow> int \<Rightarrow> string \<Rightarrow> string \<Rightarrow> string list
     \<Rightarrow> Streams \<Rightarrow> EntrypointInfo option \<Rightarrow> call list \<Rightarrow> (int \<times> error option) \<times> call list" where
  "runLiveDebug w ents fl pid nixPath shell shellArgs streams ep tr =
     (let opts = \<lparr>Mode = ModeLive, HostMountpoint = [], Writable = flagWritable fl,
                  OptEntrypoint = ep\<rparr>
      in ExecLive w ents pid nixPath shell shellArgs streams opts tr)"

definition runSnapshotDebug ::
  "world \<Rightarrow> string \<Rightarrow> string \<Rightarrow> string \<Rightarrow> string list \<Rightarrow> Streams
     \<Rightarrow> EntrypointInfo option \<Rightarrow> call list \<Rightarrow> (int \<times> error option) \<times> call list" where
  "runSnapshotDebug w nameOrID nixPath shell shellArgs streams ep tr =
     (case MountContainer w nameOrID tr of
        (Inl e, tr1) \<Rightarrow> ((0, Some e), tr1)
      | (Inr mountPoint, tr1) \<Rightarrow>
          (let opts = \<lparr>Mode = ModeSnapshot, HostMountpoint = mountPoint, Writable = False,
                       OptEntrypoint = ep\<rparr>
           in case ExecSnapshot w nixPath mountPoint shell shellArgs streams opts tr1 of
                (res, tr2) \<Rightarrow> (res, snd (UnmountContainer w nameOrID tr2))))"

text \<open>A best-effort entrypoint lookup: \<^verbatim>\<open>ep, _ := ...\<close> keeps the pointer, which is
  \<^verbatim>\<open>nil\<close> on error.\<close>

definition bestEffort ::
  "(error + EntrypointInfo) \<times> call list \<Rightarrow> EntrypointInfo option \<times> call list" where
  "bestEffort r = (case r of (Inl e, tr) \<Rightarrow> (None, tr) | (Inr ep, tr) \<Rightarrow> (Some ep, tr))"

definition tryContainerDebug ::
  "world \<Rightarrow> (string \<times> nat) list \<Rightarrow> flags \<Rightarrow> string \<Rightarrow> string \<Rightarrow> string \<Rightarrow> string list
     \<Rightarrow> Streams \<Rightarrow> call list \<Rightarrow> (int \<times> error option) \<times> call list" where
  "tryContainerDebug w ents fl nameOrID nixPath shell shellArgs streams tr =
     (case InspectContainer w nameOrID tr of
        (Inl e, tr1) \<Rightarrow> ((0, Some e), tr1)
      | (Inr ctr, tr1) \<Rightarrow>
     (case bestEffort (InspectContainerEntrypoint w nameOrID tr1) of (ep, tr2) \<Rightarrow>
     (case setupTerminal w fl tr2 of (restore, tr3) \<Rightarrow>
     (case (if State ctr = ''running'' then
              runLiveDebug w ents fl (PID ctr) nixPath shell shellArgs streams ep tr3
            else if State ctr = ''paused'' then
              runLiveDebug w ents fl (PID ctr) nixPath shell shellArgs streams ep
                (snd (sys w (Note ''Note: Container is paused. Processes are frozen but filesystem is accessible.'') tr3))
            else if State ctr \<in> set [''stopped'', ''exited'', ''created'', ''configured''] then
              runSnapshotDebug w nameOrID nixPath shell shellArgs streams ep
                (snd (sys w (Note ''Note: Container is not running. Changes will be discarded on exit.'') tr3))
            else
              ((0, Some (Error (''container '' @ nameOrID @ '' is in unsupported state: ''
                                  @ State ctr) Plain)), tr3))
      of (res, tr4) \<Rightarrow> (res, restoreTerminal w restore tr4)))))"

definition tryImageDebug ::
  "world \<Rightarrow> flags \<Rightarrow> string \<Rightarrow> string \<Rightarrow> string \<Rightarrow> string list \<Rightarrow> Streams \<Rightarrow> call list
     \<Rightarrow> (int \<times> error option) \<times> call list" where
  "tryImageDebug w fl nameOrID nixPath shell shellArgs streams tr =
     (let tr0 = snd (sys w (Note ''Note: Debugging an image. Changes will be discarded on exit.'') tr) in
      case PullImage w nameOrID ''missing'' tr0 of
        (Some e, tr1) \<Rightarrow> ((0, Some (Errorf_w (''pulling image '' @ nameOrID @ '': '') e [])), tr1)
      | (None, tr1) \<Rightarrow>
     (case bestEffort (InspectImageEntrypoint w nameOrID tr1) of (ep, tr2) \<Rightarrow>
     (case MountImage w nameOrID tr2 of
        (Inl e, tr3) \<Rightarrow> ((0, Some (Errorf_w (''mounting image '' @ nameOrID @ '': '') e [])), tr3)
      | (Inr mountPoint, tr3) \<Rightarrow>
     (case setupTerminal w fl tr3 of (restore, tr4) \<Rightarrow>
     (let opts = \<lparr>Mode = ModeImage, HostMountpoint = mountPoint, Writable = False,
                  OptEntrypoint = ep\<rparr>
      in case ExecSnapshot w nixPath mountPoint shell shellArgs streams opts tr4 of
           (res, tr5) \<Rightarrow>
             (res, snd (UnmountImage w nameOrID (restoreTerminal w restore tr5))))))))"

text \<open>
  How a function of the command ends: \<^verbatim>\<open>os.Exit(code)\<close>, a return with an error or
  \<^verbatim>\<open>nil\<close>, the replacement of the process by \<^verbatim>\<open>syscall.Exec\<close>, or the panic of
  \<^verbatim>\<open>args[0]\<close> on an empty slice (\<^verbatim>\<open>cobra.MinimumNArgs(1)\<close> keeps \<^verbatim>\<open>debugRun\<close> from
  it).
\<close>

datatype outcome = Exit int | Return "error option" | Replaced string "string list" | Panic

text \<open>The end of \<^verbatim>\<open>debugRun\<close>, from the comment \<^verbatim>\<open>Try as a container first, fall back
  to image\<close> on. The deferred \<^verbatim>\<open>podman.UnmountImage(debugImage)\<close> runs where the function
  returns, not where it calls \<^verbatim>\<open>os.Exit\<close>.\<close>

definition dispatch ::
  "world \<Rightarrow> (string \<times> nat) list \<Rightarrow> flags \<Rightarrow> string \<Rightarrow> string \<Rightarrow> string \<Rightarrow> string list
     \<Rightarrow> Streams \<Rightarrow> string \<Rightarrow> call list \<Rightarrow> outcome \<times> call list" where
  "dispatch w ents fl nameOrID nixPath shell shellArgs streams debugImage tr =
     (case tryContainerDebug w ents fl nameOrID nixPath shell shellArgs streams tr of
        ((exitCode, None), tr4) \<Rightarrow> (Exit exitCode, tr4)
      | ((exitCode, Some err), tr4) \<Rightarrow>
          if \<not> isNotFound (Some err) then
            (Return (Some err), snd (UnmountImage w debugImage tr4))
          else
            (case tryImageDebug w fl nameOrID nixPath shell shellArgs streams tr4 of
               ((exitCode2, Some err2), tr5) \<Rightarrow>
                 (Return (Some (Errorf_w (''no container or image found for '' @ Quote w nameOrID
                                            @ '': '') err2 [])),
                  snd (UnmountImage w debugImage tr5))
             | ((exitCode2, None), tr5) \<Rightarrow> (Exit exitCode2, tr5)))"

text \<open>\<^verbatim>\<open>debugRun\<close>, up to that comment.\<close>

definition debugRun ::
  "world \<Rightarrow> (string \<times> nat) list \<Rightarrow> flags \<Rightarrow> string list \<Rightarrow> call list \<Rightarrow> outcome \<times> call list" where
  "debugRun w ents fl0 args tr =
     (case args of
        [] \<Rightarrow> (Panic, tr)
      | nameOrID # cmdArgs0 \<Rightarrow>
     (let fl = (if length args > 1 \<and> flagCommand fl0 = [] then
                  (let cmdArgs = (case cmdArgs0 of
                                    a # b # rest \<Rightarrow> if a = ''-c'' then b # rest else cmdArgs0
                                  | _ \<Rightarrow> cmdArgs0)
                   in fl0\<lparr>flagCommand := Join_strings cmdArgs '' ''\<rparr>)
                else fl0);
          debugImage = flagImage fl
      in case PullImage w debugImage (flagPull fl) tr of
        (Some e, tr1) \<Rightarrow> (Return (Some (Errorf_w ''pulling debug image: '' e [])), tr1)
      | (None, tr1) \<Rightarrow>
     (case MountImage w debugImage tr1 of
        (Inl e, tr2) \<Rightarrow> (Return (Some (Errorf_w ''mounting debug image: '' e [])), tr2)
      | (Inr nixMountPoint, tr2) \<Rightarrow>
     (let nixPath = filepath_Join w [nixMountPoint, ''nix''] in
      case sys w (Stat nixPath) tr2 of
        (Some e, tr3) \<Rightarrow>
          (Return (Some (Errorf_w (''nix store not found in debug image at '' @ nixPath @ '': '')
                           e [])),
           snd (UnmountImage w debugImage tr3))
      | (None, tr3) \<Rightarrow>
     (let shell = DetectShell w (flagShell fl);
          shellArgs = (if flagCommand fl \<noteq> [] then [''-c'', flagCommand fl] else []);
          streams = resolveStreams fl
      in dispatch w ents fl nameOrID nixPath shell shellArgs streams debugImage tr3)))))"

text \<open>\<^verbatim>\<open>rootCmd.Execute()\<close>: cobra parses the flags, checks \<^verbatim>\<open>Args: cobra.MinimumNArgs(1)\<close>
  and calls \<^verbatim>\<open>RunE: debugRun\<close>; a flag error and a failed check are returned as errors,
  a request for help returns \<^verbatim>\<open>nil\<close>.\<close>

definition Execute ::
  "world \<Rightarrow> (string \<times> nat) list \<Rightarrow> string list \<Rightarrow> call list \<Rightarrow> outcome \<times> call list" where
  "Execute w ents argv tr =
     (case cobraParse w argv of
        FlagError e \<Rightarrow> (Return (Some e), tr)
      | Help \<Rightarrow> (Return None, tr)
      | Parsed fl args \<Rightarrow>
          if length args < 1 then
            (Return (Some (Error (''requires at least 1 arg(s), only received ''
                                    @ itoa (int (length args))) Plain)), tr)
          else debugRun w ents fl args tr)"

definition initProc :: "world \<Rightarrow> string \<Rightarrow> string list \<Rightarrow> call list \<Rightarrow> outcome \<times> call list" where
  "initProc w shell args tr =
     (let tr1 = snd (sys w (Mount ''proc'' ''/proc'' ''proc'' 0 []) tr);
          argv = shell # args
      in case sys w (SyscallExec shell argv) tr1 of
           (Some e, tr2) \<Rightarrow>
             (Exit 125, snd (sys w (Note (''Error: exec '' @ shell @ '': '' @ msg e @ [CHR 0x0A])) tr2))
         | (None, tr2) \<Rightarrow> (Replaced shell argv, tr2))"

definition reexecViaPodmanUnshare ::
  "world \<Rightarrow> string list \<Rightarrow> call list \<Rightarrow> outcome \<times> call list" where
  "reexecViaPodmanUnshare w osArgs tr =
     (case executable w of
        Inl e \<Rightarrow>
          (Exit 125, snd (sys w (Note (''Error: cannot determine own executable path: ''
                                         @ msg e @ [CHR 0x0A])) tr))
      | Inr self \<Rightarrow>
     (let args = [''podman'', ''unshare'', ''--'', self] @ drop 1 osArgs in
      case sys w (LookPath ''podman'') tr of
        (Some e, tr1) \<Rightarrow>
          (Exit 125, snd (sys w (Note (''Error: podman not found in PATH: ''
                                         @ msg e @ [CHR 0x0A])) tr1))
      | (None, tr1) \<Rightarrow>
     (let podmanBin = returned w tr (LookPath ''podman'') in
      case sys w (SyscallExec podmanBin args) tr1 of
        (Some e, tr2) \<Rightarrow>
          (Exit 125, snd (sys w (Note (''Error: exec podman unshare: '' @ msg e @ [CHR 0x0A])) tr2))
      | (None, tr2) \<Rightarrow> (Replaced podmanBin args, tr2))))"

text \<open>\<^verbatim>\<open>main\<close>, given \<^verbatim>\<open>os.Args\<close> and \<^verbatim>\<open>os.Getuid()\<close>. Returning from \<^verbatim>\<open>main\<close> ends the
  process with code 0; a panic ends a Go program with code 2.\<close>

definition main ::
  "world \<Rightarrow> (string \<times> nat) list \<Rightarrow> string list \<Rightarrow> int \<Rightarrow> call list \<Rightarrow> outcome \<times> call list" where
  "main w ents osArgs uid tr =
     (if length osArgs \<ge> 3 \<and> osArgs ! 1 = ''--init-proc'' then
        initProc w (osArgs ! 2) (drop 3 osArgs) tr
      else if uid \<noteq> 0 \<and> Getenv w tr ''_PODMAN_DEBUG_UNSHARED'' = [] then
        reexecViaPodmanUnshare w osArgs tr
      else
        (case Execute w ents (drop 1 osArgs) tr of
           (Return (Some err), tr1) \<Rightarrow>
             (Exit 125, snd (sys w (Note (''Error: '' @ msg err @ [CHR 0x0A])) tr1))
         | (Return None, tr1) \<Rightarrow> (Exit 0, tr1)
         | (Panic, tr1) \<Rightarrow> (Exit 2, tr1)
         | (out, tr1) \<Rightarrow> (out, tr1)))"

section \<open>Concrete worlds\<close>

text \<open>A world for running the definitions on concrete inputs: \<open>r\<close> decides which calls
  fail; every file has one byte; the library functions are given by what they return on
  clean paths and plain strings.\<close>

definition dirOf :: "string \<Rightarrow> string" where
  "dirOf p = rev (drop 1 (dropWhile (\<lambda>c. c \<noteq> CHR ''/'') (rev p)))"

definition worldOf :: "(call list \<Rightarrow> call \<Rightarrow> error option) \<Rightarrow> world" where
  "worldOf r =
     \<lparr>result = r,
      statSize = (\<lambda>tr p. 1),
      returned = (\<lambda>tr c. ''/mnt''),
      unmarshalInspect = (\<lambda>s. Inr []),
      unmarshalConfig = (\<lambda>s. Inr []),
      environ0 = (\<lambda>k. []),
      executable = Inr ''/usr/bin/podman-debug'',
      IsTerminal = (\<lambda>fd. False),
      cobraParse = (\<lambda>argv. Help),
      filepath_Join = (\<lambda>xs. Join_strings xs ''/''),
      filepath_Dir = dirOf,
      filepath_IsAbs = (\<lambda>p. take 1 p = ''/''),
      TrimSpace = (\<lambda>s. s),
      MarshalIndent = (\<lambda>ep. Inr ''{}''),
      Quote = (\<lambda>s. [CHR 0x22] @ s @ [CHR 0x22])\<rparr>"

text \<open>The world in which every call succeeds, and the error used where one fails.\<close>

definition allFine :: "call list \<Rightarrow> call \<Rightarrow> error option" where
  "allFine tr c = None"

text \<open>Streams whose standard input is present (descriptor 0).\<close>

definition pipeStreams :: Streams where
  "pipeStreams = \<lparr>Stdin = Some (File 0), Stdout = Some (File 1), Stderr = Some (File 2)\<rparr>"

definition EPERM :: error where
  "EPERM = Error ''operation not permitted'' Plain"

definition ENOENT :: error where
  "ENOENT = Error ''no such file or directory'' NotExist"

text \<open>Cobra's defaults for the flags, as \<^verbatim>\<open>main\<close> declares them.\<close>

definition defaultFlags :: flags where
  "defaultFlags =
     \<lparr>flagShell = ''auto'', flagCommand = [], flagImage = ''docker.io/nixos/nix:latest'',
      flagPull = ''missing'', flagInteractive = True, flagTTY = True, flagWritable = False\<rparr>"

text \<open>A world with one container, in the given state and with process 4242, and a command
  line without flags.\<close>

definition containerWorld :: "string \<Rightarrow> (call list \<Rightarrow> call \<Rightarrow> error option) \<Rightarrow> world" where
  "containerWorld status r =
     (worldOf r)
       \<lparr>unmarshalInspect := (\<lambda>s. Inr [\<lparr>ir_ID = ''0f3a'', ir_Status = status, ir_PID = 4242\<rparr>]),
        cobraParse := (\<lambda>argv. Parsed defaultFlags argv)\<rparr>"

text \<open>The shell ends with exit code \<open>n\<close>; everything else succeeds.\<close>

definition shellExits :: "int \<Rightarrow> call list \<Rightarrow> call \<Rightarrow> error option" where
  "shellExits n tr c =
     (case c of
        CmdWait cmd \<Rightarrow> Some (Error (''exit status '' @ itoa n) (ExitStatus n []))
      | CmdRun cmd streams \<Rightarrow> Some (Error (''exit status '' @ itoa n) (ExitStatus n []))
      | _ \<Rightarrow> None)"

text \<open>\<^verbatim>\<open>podman container inspect\<close> fails; everything else succeeds.\<close>

definition inspectFails :: "call list \<Rightarrow> call \<Rightarrow> error option" where
  "inspectFails tr c =
     (case c of
        Exec p args \<Rightarrow>
          if take 2 args = [''container'', ''inspect'']
          then Some (Error ''exit status 125'' (ExitStatus 125 ''Error: no such container''))
          else None
      | _ \<Rightarrow> None)"

text \<open>No directory can be created; everything else succeeds.\<close>

definition mkdirFails :: "call list \<Rightarrow> call \<Rightarrow> error option" where
  "mkdirFails tr c = (case c of MkdirAll p m \<Rightarrow> Some EPERM | _ \<Rightarrow> None)"

text \<open>The files under \<^verbatim>\<open>/etc\<close> exist, no other path does; everything else succeeds.\<close>

definition targetsMissing :: "call list \<Rightarrow> call \<Rightarrow> error option" where
  "targetsMissing tr c =
     (case c of Stat p \<Rightarrow> if take 5 p = ''/etc/'' then None else Some ENOENT | _ \<Rightarrow> None)"

text \<open>Entrypoint metadata with every field set, and with a command only.\<close>

definition fullEntry :: EntrypointInfo where
  "fullEntry =
     \<lparr>Entrypoint = [''/docker-entrypoint.sh''], Cmd = [''nginx'', ''-g''], WorkingDir = ''/srv''\<rparr>"

definition cmdOnly :: EntrypointInfo where
  "cmdOnly = \<lparr>Entrypoint = [], Cmd = [''nginx'', ''-g'', ''daemon off;''], WorkingDir = []\<rparr>"

text \<open>What a run has written to the file \<open>p\<close>, oldest first.\<close>

fun written :: "string \<Rightarrow> call list \<Rightarrow> content list" where
  "written p [] = []"
| "written p (c # cs) =
     (case c of
        WriteFile q cont m \<Rightarrow> if q = p then cont # written p cs else written p cs
      | _ \<Rightarrow> written p cs)"

text \<open>The target's namespace files other than \<^verbatim>\<open>mnt\<close> cannot be opened; everything else
  succeeds.\<close>

definition optionalOpensFail :: "call list \<Rightarrow> call \<Rightarrow> error option" where
  "optionalOpensFail tr c =
     (case c of
        Open p \<Rightarrow> if take 6 p = ''/proc/'' \<and> p \<noteq> ''/proc/4242/ns/mnt'' then Some ENOENT else None
      | _ \<Rightarrow> None)"

text \<open>The target's \<^verbatim>\<open>mnt\<close> namespace file cannot be opened; everything else succeeds.\<close>

definition mntOpenFails :: "call list \<Rightarrow> call \<Rightarrow> error option" where
  "mntOpenFails tr c =
     (case c of Open p \<Rightarrow> if p = ''/proc/4242/ns/mnt'' then Some ENOENT else None | _ \<Rightarrow> None)"

text \<open>Every \<^verbatim>\<open>setns\<close> fails except the one into a mount namespace; everything else
  succeeds.\<close>

definition optionalSetnsFail :: "call list \<Rightarrow> call \<Rightarrow> error option" where
  "optionalSetnsFail tr c =
     (case c of Setns fd clone \<Rightarrow> if clone \<noteq> CLONE_NEWNS then Some EPERM else None | _ \<Rightarrow> None)"

text \<open>The \<^verbatim>\<open>setns\<close> into a mount namespace fails; everything else succeeds.\<close>

definition mntSetnsFails :: "call list \<Rightarrow> call \<Rightarrow> error option" where
  "mntSetnsFails tr c =
     (case c of Setns fd clone \<Rightarrow> if clone = CLONE_NEWNS then Some EPERM else None | _ \<Rightarrow> None)"

text \<open>\<^verbatim>\<open>podman mount\<close> of a container fails and reports that there is no such container;
  everything else succeeds.\<close>

definition mountFails :: "call list \<Rightarrow> call \<Rightarrow> error option" where
  "mountFails tr c =
     (case c of
        Exec p args \<Rightarrow>
          if take 1 args = [''mount'']
          then Some (Error ''exit status 125'' (ExitStatus 125 ''Error: no such container''))
          else None
      | _ \<Rightarrow> None)"




section \<open>The order of namespace and mount operations, as the specification gives it\<close>

text \<open>The namespace and mount operations of a run: its \<^verbatim>\<open>unshare\<close>, \<^verbatim>\<open>setns\<close> and
  \<^verbatim>\<open>mount\<close> calls, in order.\<close>

fun isNsOp :: "call \<Rightarrow> bool" where
  "isNsOp (Unshare flags) = True"
| "isNsOp (Setns fd clone) = True"
| "isNsOp (Mount src target fstype flags data) = True"
| "isNsOp c = False"

definition nsOps :: "call list \<Rightarrow> call list" where
  "nsOps tr = filter isNsOp tr"

definition setnsOf :: "string \<times> nat \<Rightarrow> call" where
  "setnsOf ns = Setns (fst ns) (snd ns)"


text \<open>The calls of a run that start the shell.\<close>

fun isSpawn :: "call \<Rightarrow> bool" where
  "isSpawn (PtyStart cmd) = True"
| "isSpawn (CmdRun cmd streams) = True"
| "isSpawn c = False"

definition spawns :: "call list \<Rightarrow> call list" where
  "spawns tr = filter isSpawn tr"

text \<open>The calls of a run that wait for the end of a shell started on a pseudo-terminal.\<close>

fun isWait :: "call \<Rightarrow> bool" where
  "isWait (CmdWait cmd) = True"
| "isWait c = False"

definition waits :: "call list \<Rightarrow> call list" where
  "waits tr = filter isWait tr"

text \<open>The two mounts of the overlay on a lower directory.\<close>

definition ovMounts :: "string \<Rightarrow> call list" where
  "ovMounts lowerDir = [Mount ''tmpfs'' overlayBasePath ''tmpfs'' 0 ''size=1G'',
        Mount ''overlay'' (overlayBasePath @ ''/merged'') ''overlay'' 0
          (''lowerdir='' @ lowerDir @ '',upperdir='' @ overlayBasePath @ ''/upper''
             @ '',workdir='' @ overlayBasePath @ ''/work'')]"

section \<open>Properties of the podman client\<close>

text \<open>
  Claim C10. \<^verbatim>\<open>PullImage\<close> rejects no pull policy: a policy other than \<^verbatim>\<open>"always"\<close> and
  \<^verbatim>\<open>"never"\<close> behaves as \<^verbatim>\<open>"missing"\<close>, which asks whether the image exists and pulls only
  when it does not; \<^verbatim>\<open>"always"\<close> pulls without asking; \<^verbatim>\<open>"never"\<close> asks, never pulls, and
  returns an error exactly when the image does not exist.
\<close>

theorem PullImage_policy:
  "(pullPolicy \<noteq> ''always'' \<and> pullPolicy \<noteq> ''never'' \<longrightarrow>
      PullImage w img pullPolicy tr = PullImage w img ''missing'' tr)
   \<and> PullImage w img ''missing'' tr =
       (case result w tr (Exec ''podman'' [''image'', ''exists'', img]) of
          None \<Rightarrow> (None, tr @ [Exec ''podman'' [''image'', ''exists'', img]])
        | Some e \<Rightarrow>
            (result w (tr @ [Exec ''podman'' [''image'', ''exists'', img]])
               (Exec ''podman'' [''pull'', img]),
             tr @ [Exec ''podman'' [''image'', ''exists'', img], Exec ''podman'' [''pull'', img]]))
   \<and> PullImage w img ''always'' tr =
       (result w tr (Exec ''podman'' [''pull'', img]), tr @ [Exec ''podman'' [''pull'', img]])
   \<and> snd (PullImage w img ''never'' tr) = tr @ [Exec ''podman'' [''image'', ''exists'', img]]
   \<and> (fst (PullImage w img ''never'' tr) \<noteq> None \<longleftrightarrow>
        result w tr (Exec ''podman'' [''image'', ''exists'', img]) \<noteq> None)"
  by (auto simp: PullImage_def sys_def split: option.splits)

theorem PullImage_policy_witness:
  "''sometimes'' \<noteq> ''always'' \<and> ''sometimes'' \<noteq> ''never'' \<and>
   PullImage (worldOf allFine) ''nginx'' ''sometimes'' []
     = PullImage (worldOf allFine) ''nginx'' ''missing'' [] \<and>
   PullImage (worldOf allFine) ''nginx'' ''missing'' []
     = (None, [Exec ''podman'' [''image'', ''exists'', ''nginx'']])"
  using PullImage_policy [of "''sometimes''" "worldOf allFine" "''nginx''" "[]"]
  by (simp add: worldOf_def allFine_def)

section \<open>Properties of the overlay\<close>



section \<open>Properties of the shell runner\<close>

text \<open>
  Claim C7, as the code has it. \<^verbatim>\<open>runShell\<close>, called with \<^verbatim>\<open>len(shellArgs) == 0\<close> as its
  \<^verbatim>\<open>interactive\<close> argument, starts the shell on a fresh pseudo-terminal exactly when the
  shell arguments are empty and the standard input of the streams is present (not
  \<^verbatim>\<open>nil\<close>); otherwise its only call is \<^verbatim>\<open>cmd.Run\<close> with the three streams handed to the
  command. Whether the standard input is a terminal is not looked at.
\<close>

theorem runShell_branch:
  "(shellArgs = [] \<and> Stdin streams \<noteq> None \<longrightarrow>
      (\<exists>rest. snd (runShell w cmd streams (length shellArgs = 0) tr) = tr @ PtyStart cmd # rest))
   \<and> (\<not> (shellArgs = [] \<and> Stdin streams \<noteq> None) \<longrightarrow>
      snd (runShell w cmd streams (length shellArgs = 0) tr) = tr @ [CmdRun cmd streams])"
  by (auto simp: runShell_def sys_def Let_def split: option.splits prod.splits)

theorem runShell_branch_witness:
  "Stdin pipeStreams \<noteq> None \<and>
   (\<exists>rest. snd (runShell (worldOf allFine) (Command ''/bin/sh'' []) pipeStreams
                  (length ([] :: string list) = 0) [])
            = [] @ PtyStart (Command ''/bin/sh'' []) # rest) \<and>
   snd (runShell (worldOf allFine) (Command ''/bin/sh'' [''-c'', ''id'']) pipeStreams
          (length [''-c'', ''id''] = 0) [])
     = [] @ [CmdRun (Command ''/bin/sh'' [''-c'', ''id'']) pipeStreams]"
  using runShell_branch [of "[]" pipeStreams "worldOf allFine" "Command ''/bin/sh'' []" "[]"]
    runShell_branch [of "[''-c'', ''id'']" pipeStreams "worldOf allFine"
      "Command ''/bin/sh'' [''-c'', ''id'']" "[]"]
  by (simp add: pipeStreams_def)

text \<open>The claim as written fails where the standard input is present and is not a terminal
  (a pipe): with no shell arguments the pseudo-terminal is used all the same.\<close>

theorem runShell_pipe_counterexample:
  "\<not> IsTerminal (worldOf allFine) 0 \<and>
   snd (runShell (worldOf allFine) (Command ''/bin/sh'' []) pipeStreams
          (length ([] :: string list) = 0) [])
     = [PtyStart (Command ''/bin/sh'' []), PtyGetsize (File 0), PtySetsize, PtyPump,
        CmdWait (Command ''/bin/sh'' [])]"
  by (simp add: runShell_def sys_def worldOf_def allFine_def pipeStreams_def Command_def)

section \<open>Properties of the host-resource binder\<close>

text \<open>
  Claim C6, as the code has it. One round of \<^verbatim>\<open>bindNetworkConfig\<close>, for one of the files
  \<^verbatim>\<open>/etc/resolv.conf\<close>, \<^verbatim>\<open>/etc/hosts\<close>, \<^verbatim>\<open>/etc/hostname\<close> (taken in this order): when the
  source cannot be examined or has size zero, the round is that one \<^verbatim>\<open>stat\<close> and nothing is
  created or mounted; otherwise the directory of the target is created, and when that fails
  the round ends there; otherwise the target is examined, an empty placeholder is created
  exactly when the target does not exist, and the source is bind-mounted on the target
  unless creating the placeholder failed.
\<close>

theorem bindNetworkFile_calls:
  "bindNetworkFile w mergedDir configFile tr = tr @
     (let target = mergedDir @ configFile;
          dir = MkdirAll (filepath_Dir w target) 493;
          mount = Mount configFile target [] MS_BIND []
      in if result w tr (Stat configFile) \<noteq> None \<or> statSize w tr configFile = 0
         then [Stat configFile]
         else if result w (tr @ [Stat configFile]) dir \<noteq> None
         then [Stat configFile, dir]
         else if \<not> IsNotExist (result w (tr @ [Stat configFile, dir]) (Stat target))
         then [Stat configFile, dir, Stat target, mount]
         else if result w (tr @ [Stat configFile, dir, Stat target]) (Create target) \<noteq> None
         then [Stat configFile, dir, Stat target, Create target]
         else [Stat configFile, dir, Stat target, Create target, mount])
   \<and> bindNetworkConfig w mergedDir tr =
       bindNetworkFile w mergedDir ''/etc/hostname''
         (bindNetworkFile w mergedDir ''/etc/hosts''
            (bindNetworkFile w mergedDir ''/etc/resolv.conf'' tr))"
  by (auto simp: bindNetworkFile_def bindNetworkConfig_def sys_def Let_def split: option.splits prod.splits)

theorem bindNetworkFile_calls_witness:
  "result (worldOf targetsMissing) [] (Stat ''/etc/hosts'') = None \<and>
   statSize (worldOf targetsMissing) [] ''/etc/hosts'' \<noteq> 0 \<and>
   bindNetworkFile (worldOf targetsMissing) ''/tmp/.podman-debug-overlay/merged'' ''/etc/hosts'' [] =
     [Stat ''/etc/hosts'', MkdirAll ''/tmp/.podman-debug-overlay/merged/etc'' 493,
      Stat ''/tmp/.podman-debug-overlay/merged/etc/hosts'',
      Create ''/tmp/.podman-debug-overlay/merged/etc/hosts'',
      Mount ''/etc/hosts'' ''/tmp/.podman-debug-overlay/merged/etc/hosts'' [] 4096 []]"
  using bindNetworkFile_calls [of "worldOf targetsMissing" "''/tmp/.podman-debug-overlay/merged''"
      "''/etc/hosts''" "[]"]
  by (simp add: worldOf_def targetsMissing_def dirOf_def ENOENT_def IsNotExist_def MS_BIND_def Let_def)

text \<open>The claim as written fails where the source exists and is not empty and the directory
  of the target cannot be created: nothing is mounted.\<close>

theorem bindNetworkConfig_counterexample:
  "result (worldOf mkdirFails) [] (Stat ''/etc/resolv.conf'') = None \<and>
   statSize (worldOf mkdirFails) [] ''/etc/resolv.conf'' \<noteq> 0 \<and>
   bindNetworkConfig (worldOf mkdirFails) ''/tmp/.podman-debug-overlay/merged'' [] =
     [Stat ''/etc/resolv.conf'', MkdirAll ''/tmp/.podman-debug-overlay/merged/etc'' 493,
      Stat ''/etc/hosts'', MkdirAll ''/tmp/.podman-debug-overlay/merged/etc'' 493,
      Stat ''/etc/hostname'', MkdirAll ''/tmp/.podman-debug-overlay/merged/etc'' 493]"
  by (simp add: bindNetworkFile_def bindNetworkConfig_def sys_def Let_def worldOf_def
      mkdirFails_def dirOf_def EPERM_def)

section \<open>Properties of the payload writer\<close>

text \<open>
  Claim C8, as the code has it. When the metadata can be marshalled,
  \<^verbatim>\<open>writeEntrypointMetadata\<close> makes the metadata directory and writes
  \<^verbatim>\<open>entrypoint.json\<close>; then \<^verbatim>\<open>ep_bin\<close> with the entrypoint joined by spaces if the
  entrypoint is not empty, \<^verbatim>\<open>ep_cmd\<close> with the command joined by spaces if the command is not
  empty, \<^verbatim>\<open>ep_workdir\<close> with the working directory if it is not the empty string,
  \<^verbatim>\<open>ep_effective\<close> with entrypoint followed by command joined by spaces if that list is not
  empty; then \<^verbatim>\<open>entrypoint.txt\<close>. A file whose field is empty is not written.
\<close>

theorem writeEntrypointMetadata_files:
  assumes "MarshalIndent w ep = Inr data"
  shows "writeEntrypointMetadata w mergedDir ep tr =
     tr @ [MkdirAll (mergedDir @ metadataDir) 493,
           WriteFile (filepath_Join w [mergedDir @ metadataDir, ''entrypoint.json''])
             (Bytes data) 420]
        @ (if Entrypoint ep \<noteq> []
           then [WriteFile (filepath_Join w [mergedDir @ metadataDir, ''ep_bin''])
                   (Bytes (Join_strings (Entrypoint ep) '' '')) 420]
           else [])
        @ (if Cmd ep \<noteq> []
           then [WriteFile (filepath_Join w [mergedDir @ metadataDir, ''ep_cmd''])
                   (Bytes (Join_strings (Cmd ep) '' '')) 420]
           else [])
        @ (if WorkingDir ep \<noteq> []
           then [WriteFile (filepath_Join w [mergedDir @ metadataDir, ''ep_workdir''])
                   (Bytes (WorkingDir ep)) 420]
           else [])
        @ (if Entrypoint ep @ Cmd ep \<noteq> []
           then [WriteFile (filepath_Join w [mergedDir @ metadataDir, ''ep_effective''])
                   (Bytes (Join_strings (Entrypoint ep @ Cmd ep) '' '')) 420]
           else [])
        @ [WriteFile (filepath_Join w [mergedDir @ metadataDir, ''entrypoint.txt''])
             (Bytes (summaryText w ep)) 420]"
  using assms by (simp add: writeEntrypointMetadata_def sys_def Let_def)

theorem writeEntrypointMetadata_files_witness:
  "MarshalIndent (worldOf allFine) fullEntry = Inr ''{}'' \<and>
   writeEntrypointMetadata (worldOf allFine) ''/tmp/.podman-debug-overlay/merged'' fullEntry [] =
     [MkdirAll ''/tmp/.podman-debug-overlay/merged/.podman-debug'' 493,
      WriteFile ''/tmp/.podman-debug-overlay/merged/.podman-debug/entrypoint.json''
        (Bytes ''{}'') 420,
      WriteFile ''/tmp/.podman-debug-overlay/merged/.podman-debug/ep_bin''
        (Bytes ''/docker-entrypoint.sh'') 420,
      WriteFile ''/tmp/.podman-debug-overlay/merged/.podman-debug/ep_cmd''
        (Bytes ''nginx -g'') 420,
      WriteFile ''/tmp/.podman-debug-overlay/merged/.podman-debug/ep_workdir''
        (Bytes ''/srv'') 420,
      WriteFile ''/tmp/.podman-debug-overlay/merged/.podman-debug/ep_effective''
        (Bytes ''/docker-entrypoint.sh nginx -g'') 420,
      WriteFile ''/tmp/.podman-debug-overlay/merged/.podman-debug/entrypoint.txt''
        (Bytes (summaryText (worldOf allFine) fullEntry)) 420]"
proof -
  have m: "MarshalIndent (worldOf allFine) fullEntry = Inr ''{}''"
    by (simp add: worldOf_def)
  from writeEntrypointMetadata_files [OF m, of "''/tmp/.podman-debug-overlay/merged''" "[]"] m
  show ?thesis
    by (simp add: fullEntry_def metadataDir_def worldOf_def)
qed

text \<open>The claim as written fails for metadata with an empty field: for an image with a
  command and no entrypoint and no working directory, neither \<^verbatim>\<open>ep_bin\<close> nor
  \<^verbatim>\<open>ep_workdir\<close> is written.\<close>

theorem writeEntrypointMetadata_counterexample:
  "written ''/tmp/.podman-debug-overlay/merged/.podman-debug/ep_bin''
     (writeEntrypointMetadata (worldOf allFine) ''/tmp/.podman-debug-overlay/merged'' cmdOnly []) = []
   \<and> written ''/tmp/.podman-debug-overlay/merged/.podman-debug/ep_workdir''
     (writeEntrypointMetadata (worldOf allFine) ''/tmp/.podman-debug-overlay/merged'' cmdOnly []) = []
   \<and> written ''/tmp/.podman-debug-overlay/merged/.podman-debug/ep_cmd''
     (writeEntrypointMetadata (worldOf allFine) ''/tmp/.podman-debug-overlay/merged'' cmdOnly [])
       = [Bytes ''nginx -g daemon off;'']"
  by (simp add: writeEntrypointMetadata_def sys_def Let_def worldOf_def cmdOnly_def metadataDir_def)

section \<open>Evaluating the definitions\<close>

text \<open>The definitions that a run on a concrete input unfolds, and the decimal form of the
  process number used there.\<close>

lemma itoa_4242: "itoa 4242 = ''4242''"
  by (simp add: itoa_def digits.simps)

lemmas model_defs = main_def Execute_def debugRun_def dispatch_def tryContainerDebug_def
  tryImageDebug_def runLiveDebug_def runSnapshotDebug_def ExecLive_def ExecSnapshot_def
  setupLiveMode_def setupSnapshotMode_def mountNixInto_def createOverlay_def mountNixStore_def
  bindHostMounts_def bindSnapshotMounts_def bindNetworkConfig_def bindNetworkFile_def bindDir_def
  writeNixConfig_def writeBuiltins_def writeScript_def copyBinary_def writeEntrypointMetadata_def
  setupEnvironment_def Getenv_def runShell_def DetectShell_def Command_def wrapWithPIDNS_def
  InspectContainer_def InspectContainerEntrypoint_def InspectImageEntrypoint_def MountContainer_def
  MountImage_def UnmountImage_def UnmountContainer_def PullImage_def bestEffort_def
  setupTerminal_def restoreTerminal_def resolveStreams_def isNotFound_def isExitError_def
  sys_def Let_def nsPaths_def NamespacePath_def overlayBasePath_def builtinsDir_def
  metadataDir_def initBinaryPath_def IsNotExist_def

lemmas flag_defs = CLONE_NEWNS_def CLONE_NEWPID_def CLONE_NEWNET_def CLONE_NEWIPC_def
  CLONE_NEWUTS_def MS_BIND_def MS_REC_def MS_PRIVATE_def


section \<open>Properties of the command\<close>

text \<open>\<^verbatim>\<open>strings.Contains\<close> is the search for a contiguous part.\<close>

lemma Contains_sublist: "Contains s sub \<longleftrightarrow> sublist sub s"
  by (induction s) (auto simp: sublist_Cons_right)

lemma Contains_iff: "Contains s sub \<longleftrightarrow> (\<exists>p q. s = p @ sub @ q)"
  by (simp add: Contains_sublist sublist_def)

text \<open>
  Claim C1, as the code has it. The reference is tried as a container first, and the attempt
  begins with the inspection. \<^verbatim>\<open>isNotFound\<close> holds of the error of the attempt exactly
  when its message contains one of the three texts. The command goes on with the image
  exactly when \<^verbatim>\<open>isNotFound\<close> holds of that error; every other error is returned after
  unmounting the debug image, the image not having been tried; and without an error the
  process exits with the code of the attempt. When the inspection fails, its error is the
  error of the attempt. When it succeeds, the states \<^verbatim>\<open>running\<close> and \<^verbatim>\<open>paused\<close> run a live
  session on the container's process, the states \<^verbatim>\<open>stopped\<close>, \<^verbatim>\<open>exited\<close>, \<^verbatim>\<open>created\<close> and
  \<^verbatim>\<open>configured\<close> run a snapshot session, every other state is the error
  \<^verbatim>\<open>unsupported state\<close>, and what that session returns is what the attempt returns.
\<close>

theorem dispatch_policy:
  assumes "InspectContainer w nameOrID tr = (r, tri)"
      and "tryContainerDebug w ents fl nameOrID nixPath shell shellArgs streams tr
             = ((code, err), trc)"
  shows "(isNotFound err \<longleftrightarrow>
            (\<exists>e. err = Some e \<and>
               ((\<exists>p q. msg e = p @ ''no container with name or ID'' @ q) \<or>
                (\<exists>p q. msg e = p @ ''no such container'' @ q) \<or>
                (\<exists>p q. msg e = p @ ''inspecting container'' @ q))))
       \<and> (\<forall>e. r = Inl e \<longrightarrow> err = Some e \<and> trc = tri)
       \<and> (isNotFound err \<longrightarrow>
            dispatch w ents fl nameOrID nixPath shell shellArgs streams debugImage tr =
              (case tryImageDebug w fl nameOrID nixPath shell shellArgs streams trc of
                 ((c, None), tr5) \<Rightarrow> (Exit c, tr5)
               | ((c, Some err2), tr5) \<Rightarrow>
                   (Return (Some (Errorf_w (''no container or image found for ''
                                              @ Quote w nameOrID @ '': '') err2 [])),
                    tr5 @ [Exec ''podman'' [''image'', ''unmount'', debugImage]])))
       \<and> (err \<noteq> None \<and> \<not> isNotFound err \<longrightarrow>
            dispatch w ents fl nameOrID nixPath shell shellArgs streams debugImage tr =
              (Return err, trc @ [Exec ''podman'' [''image'', ''unmount'', debugImage]]))
       \<and> (err = None \<longrightarrow>
            dispatch w ents fl nameOrID nixPath shell shellArgs streams debugImage tr =
              (Exit code, trc))
       \<and> (\<forall>ctr ep tr2 restore tr3.
            r = Inr ctr \<and>
            bestEffort (InspectContainerEntrypoint w nameOrID tri) = (ep, tr2) \<and>
            setupTerminal w fl tr2 = (restore, tr3) \<longrightarrow>
            ((code, err), trc) =
              (if State ctr = ''running'' then
                 (case ExecLive w ents (PID ctr) nixPath shell shellArgs streams
                         \<lparr>Mode = ModeLive, HostMountpoint = [], Writable = flagWritable fl,
                          OptEntrypoint = ep\<rparr> tr3 of
                    (res, t) \<Rightarrow> (res, restoreTerminal w restore t))
               else if State ctr = ''paused'' then
                 (case ExecLive w ents (PID ctr) nixPath shell shellArgs streams
                         \<lparr>Mode = ModeLive, HostMountpoint = [], Writable = flagWritable fl,
                          OptEntrypoint = ep\<rparr>
                         (tr3 @ [Note
                             ''Note: Container is paused. Processes are frozen but filesystem is accessible.'']) of
                    (res, t) \<Rightarrow> (res, restoreTerminal w restore t))
               else if State ctr = ''stopped'' \<or> State ctr = ''exited'' \<or>
                       State ctr = ''created'' \<or> State ctr = ''configured'' then
                 (case runSnapshotDebug w nameOrID nixPath shell shellArgs streams ep
                         (tr3 @ [Note
                             ''Note: Container is not running. Changes will be discarded on exit.'']) of
                    (res, t) \<Rightarrow> (res, restoreTerminal w restore t))
               else
                 ((0, Some (Error (''container '' @ nameOrID @ '' is in unsupported state: ''
                                     @ State ctr) Plain)),
                  restoreTerminal w restore tr3)))"
proof (intro conjI allI impI)
  show "isNotFound err \<longleftrightarrow>
            (\<exists>e. err = Some e \<and>
               ((\<exists>p q. msg e = p @ ''no container with name or ID'' @ q) \<or>
                (\<exists>p q. msg e = p @ ''no such container'' @ q) \<or>
                (\<exists>p q. msg e = p @ ''inspecting container'' @ q)))"
  proof -
    have k: "\<And>a. isNotFound (Some a) \<longleftrightarrow>
               (\<exists>p q. msg a = p @ ''no container with name or ID'' @ q) \<or>
               (\<exists>p q. msg a = p @ ''no such container'' @ q) \<or>
               (\<exists>p q. msg a = p @ ''inspecting container'' @ q)"
      by (simp only: isNotFound_def option.case Contains_iff)
    have n: "\<not> isNotFound None"
      by (simp add: isNotFound_def)
    show ?thesis
      using k n by (cases err) blast+
  qed
next
  fix e assume r: "r = Inl e"
  from assms r show "err = Some e" by (simp add: tryContainerDebug_def)
next
  fix e assume r: "r = Inl e"
  from assms r show "trc = tri" by (simp add: tryContainerDebug_def)
next
  assume nf: "isNotFound err"
  then obtain e where e: "err = Some e" by (cases err) (auto simp: isNotFound_def)
  show "dispatch w ents fl nameOrID nixPath shell shellArgs streams debugImage tr =
              (case tryImageDebug w fl nameOrID nixPath shell shellArgs streams trc of
                 ((c, None), tr5) \<Rightarrow> (Exit c, tr5)
               | ((c, Some err2), tr5) \<Rightarrow>
                   (Return (Some (Errorf_w (''no container or image found for ''
                                              @ Quote w nameOrID @ '': '') err2 [])),
                    tr5 @ [Exec ''podman'' [''image'', ''unmount'', debugImage]]))"
    using nf e
    by (simp add: dispatch_def assms(2) UnmountImage_def sys_def split: prod.splits option.splits)
next
  assume h: "err \<noteq> None \<and> \<not> isNotFound err"
  then obtain e where e: "err = Some e" by (cases err) auto
  show "dispatch w ents fl nameOrID nixPath shell shellArgs streams debugImage tr =
              (Return err, trc @ [Exec ''podman'' [''image'', ''unmount'', debugImage]])"
    using h e by (simp add: dispatch_def assms(2) UnmountImage_def sys_def)
next
  assume "err = None"
  then show "dispatch w ents fl nameOrID nixPath shell shellArgs streams debugImage tr =
              (Exit code, trc)"
    by (simp add: dispatch_def assms(2))
next
  fix ctr ep tr2 restore tr3
  assume h: "r = Inr ctr \<and>
            bestEffort (InspectContainerEntrypoint w nameOrID tri) = (ep, tr2) \<and>
            setupTerminal w fl tr2 = (restore, tr3)"
  have "tryContainerDebug w ents fl nameOrID nixPath shell shellArgs streams tr =
              (if State ctr = ''running'' then
                 (case ExecLive w ents (PID ctr) nixPath shell shellArgs streams
                         \<lparr>Mode = ModeLive, HostMountpoint = [], Writable = flagWritable fl,
                          OptEntrypoint = ep\<rparr> tr3 of
                    (res, t) \<Rightarrow> (res, restoreTerminal w restore t))
               else if State ctr = ''paused'' then
                 (case ExecLive w ents (PID ctr) nixPath shell shellArgs streams
                         \<lparr>Mode = ModeLive, HostMountpoint = [], Writable = flagWritable fl,
                          OptEntrypoint = ep\<rparr>
                         (tr3 @ [Note
                             ''Note: Container is paused. Processes are frozen but filesystem is accessible.'']) of
                    (res, t) \<Rightarrow> (res, restoreTerminal w restore t))
               else if State ctr = ''stopped'' \<or> State ctr = ''exited'' \<or>
                       State ctr = ''created'' \<or> State ctr = ''configured'' then
                 (case runSnapshotDebug w nameOrID nixPath shell shellArgs streams ep
                         (tr3 @ [Note
                             ''Note: Container is not running. Changes will be discarded on exit.'']) of
                    (res, t) \<Rightarrow> (res, restoreTerminal w restore t))
               else
                 ((0, Some (Error (''container '' @ nameOrID @ '' is in unsupported state: ''
                                     @ State ctr) Plain)),
                  restoreTerminal w restore tr3))"
    using assms(1) h by (simp add: tryContainerDebug_def runLiveDebug_def sys_def)
  with assms(2) show "((code, err), trc) =
              (if State ctr = ''running'' then
                 (case ExecLive w ents (PID ctr) nixPath shell shellArgs streams
                         \<lparr>Mode = ModeLive, HostMountpoint = [], Writable = flagWritable fl,
                          OptEntrypoint = ep\<rparr> tr3 of
                    (res, t) \<Rightarrow> (res, restoreTerminal w restore t))
               else if State ctr = ''paused'' then
                 (case ExecLive w ents (PID ctr) nixPath shell shellArgs streams
                         \<lparr>Mode = ModeLive, HostMountpoint = [], Writable = flagWritable fl,
                          OptEntrypoint = ep\<rparr>
                         (tr3 @ [Note
                             ''Note: Container is paused. Processes are frozen but filesystem is accessible.'']) of
                    (res, t) \<Rightarrow> (res, restoreTerminal w restore t))
               else if State ctr = ''stopped'' \<or> State ctr = ''exited'' \<or>
                       State ctr = ''created'' \<or> State ctr = ''configured'' then
                 (case runSnapshotDebug w nameOrID nixPath shell shellArgs streams ep
                         (tr3 @ [Note
                             ''Note: Container is not running. Changes will be discarded on exit.'']) of
                    (res, t) \<Rightarrow> (res, restoreTerminal w restore t))
               else
                 ((0, Some (Error (''container '' @ nameOrID @ '' is in unsupported state: ''
                                     @ State ctr) Plain)),
                  restoreTerminal w restore tr3))"
    by simp
qed

theorem dispatch_policy_witness:
  "InspectContainer (worldOf inspectFails) ''nginx'' [] =
     (Inl (Error ''inspecting container nginx: exit status 125'' Plain),
      [Exec ''podman'' [''container'', ''inspect'', ''--format'', ''json'', ''nginx'']])
   \<and> isNotFound (Some (Error ''inspecting container nginx: exit status 125'' Plain))
   \<and> dispatch (worldOf inspectFails) (nsPaths 1) defaultFlags ''nginx'' ''/mnt/nix''
        ''/bin/sh'' [] pipeStreams ''img'' [] =
       (case tryImageDebug (worldOf inspectFails) defaultFlags ''nginx'' ''/mnt/nix''
               ''/bin/sh'' [] pipeStreams
               [Exec ''podman'' [''container'', ''inspect'', ''--format'', ''json'', ''nginx'']] of
          ((c, None), tr5) \<Rightarrow> (Exit c, tr5)
        | ((c, Some err2), tr5) \<Rightarrow>
            (Return (Some (Errorf_w (''no container or image found for ''
                                       @ Quote (worldOf inspectFails) ''nginx'' @ '': '') err2 [])),
             tr5 @ [Exec ''podman'' [''image'', ''unmount'', ''img'']]))
   \<and> InspectContainer (containerWorld ''removing'' allFine) ''web'' [] =
       (Inr \<lparr>ID = ''0f3a'', State = ''removing'', PID = 4242\<rparr>,
        [Exec ''podman'' [''container'', ''inspect'', ''--format'', ''json'', ''web'']])
   \<and> tryContainerDebug (containerWorld ''removing'' allFine) (nsPaths 4242) defaultFlags ''web''
        ''/mnt/nix'' ''/bin/sh'' [] pipeStreams [] =
       ((0, Some (Error ''container web is in unsupported state: removing'' Plain)),
        [Exec ''podman'' [''container'', ''inspect'', ''--format'', ''json'', ''web''],
         Exec ''podman'' [''container'', ''inspect'', ''--format'', ''json'', ''web'']])
   \<and> \<not> isNotFound (Some (Error ''container web is in unsupported state: removing'' Plain))
   \<and> dispatch (containerWorld ''removing'' allFine) (nsPaths 4242) defaultFlags ''web''
        ''/mnt/nix'' ''/bin/sh'' [] pipeStreams ''img'' [] =
       (Return (Some (Error ''container web is in unsupported state: removing'' Plain)),
        [Exec ''podman'' [''container'', ''inspect'', ''--format'', ''json'', ''web''],
         Exec ''podman'' [''container'', ''inspect'', ''--format'', ''json'', ''web''],
         Exec ''podman'' [''image'', ''unmount'', ''img'']])
   \<and> fst (tryContainerDebug (containerWorld ''running'' (shellExits 7)) (nsPaths 4242)
             defaultFlags ''web'' ''/mnt/nix'' ''/bin/sh'' [] pipeStreams []) = (7, None)
   \<and> dispatch (containerWorld ''running'' (shellExits 7)) (nsPaths 4242) defaultFlags ''web''
        ''/mnt/nix'' ''/bin/sh'' [] pipeStreams ''img'' [] =
       (Exit 7, snd (tryContainerDebug (containerWorld ''running'' (shellExits 7)) (nsPaths 4242)
                       defaultFlags ''web'' ''/mnt/nix'' ''/bin/sh'' [] pipeStreams []))"
proof -
  have i1: "InspectContainer (worldOf inspectFails) ''nginx'' [] =
     (Inl (Error ''inspecting container nginx: exit status 125'' Plain),
      [Exec ''podman'' [''container'', ''inspect'', ''--format'', ''json'', ''nginx'']])"
    by (simp add: InspectContainer_def sys_def worldOf_def inspectFails_def Errorf_w_def)
  have c1: "tryContainerDebug (worldOf inspectFails) (nsPaths 1) defaultFlags ''nginx''
              ''/mnt/nix'' ''/bin/sh'' [] pipeStreams [] =
     ((0, Some (Error ''inspecting container nginx: exit status 125'' Plain)),
      [Exec ''podman'' [''container'', ''inspect'', ''--format'', ''json'', ''nginx'']])"
    by (simp add: tryContainerDebug_def i1)
  have nf: "isNotFound (Some (Error ''inspecting container nginx: exit status 125'' Plain))"
    by (simp add: isNotFound_def)
  have i2: "InspectContainer (containerWorld ''removing'' allFine) ''web'' [] =
       (Inr \<lparr>ID = ''0f3a'', State = ''removing'', PID = 4242\<rparr>,
        [Exec ''podman'' [''container'', ''inspect'', ''--format'', ''json'', ''web'']])"
    by (simp add: InspectContainer_def sys_def containerWorld_def worldOf_def allFine_def)
  have c2: "tryContainerDebug (containerWorld ''removing'' allFine) (nsPaths 4242) defaultFlags
      ''web''
        ''/mnt/nix'' ''/bin/sh'' [] pipeStreams [] =
       ((0, Some (Error ''container web is in unsupported state: removing'' Plain)),
        [Exec ''podman'' [''container'', ''inspect'', ''--format'', ''json'', ''web''],
         Exec ''podman'' [''container'', ''inspect'', ''--format'', ''json'', ''web'']])"
    by (simp add: model_defs containerWorld_def worldOf_def allFine_def defaultFlags_def)
  have nn: "\<not> isNotFound (Some (Error ''container web is in unsupported state: removing'' Plain))"
    by (simp add: isNotFound_def)
  have i3: "InspectContainer (containerWorld ''running'' (shellExits 7)) ''web'' [] =
       (Inr \<lparr>ID = ''0f3a'', State = ''running'', PID = 4242\<rparr>,
        [Exec ''podman'' [''container'', ''inspect'', ''--format'', ''json'', ''web'']])"
    by (simp add: InspectContainer_def sys_def containerWorld_def worldOf_def shellExits_def)
  have f3: "fst (tryContainerDebug (containerWorld ''running'' (shellExits 7)) (nsPaths 4242)
             defaultFlags ''web'' ''/mnt/nix'' ''/bin/sh'' [] pipeStreams []) = (7, None)"
    by (simp add: model_defs containerWorld_def worldOf_def shellExits_def defaultFlags_def
        pipeStreams_def itoa_4242 dirOf_def flag_defs)
  then have c3: "tryContainerDebug (containerWorld ''running'' (shellExits 7)) (nsPaths 4242)
             defaultFlags ''web'' ''/mnt/nix'' ''/bin/sh'' [] pipeStreams [] =
       ((7, None), snd (tryContainerDebug (containerWorld ''running'' (shellExits 7)) (nsPaths 4242)
                       defaultFlags ''web'' ''/mnt/nix'' ''/bin/sh'' [] pipeStreams []))"
    by (metis prod.collapse)
  note d1 = dispatch_policy [OF i1 c1, of "''img''", THEN conjunct2, THEN conjunct2,
      THEN conjunct1, THEN mp, OF nf]
  note d2 = dispatch_policy [OF i2 c2, of "''img''", THEN conjunct2, THEN conjunct2,
      THEN conjunct2, THEN conjunct1, THEN mp, OF conjI [OF _ nn]]
  note d3 = dispatch_policy [OF i3 c3, of "''img''", THEN conjunct2, THEN conjunct2,
      THEN conjunct2, THEN conjunct2, THEN conjunct1, THEN mp, OF refl]
  have d2': "dispatch (containerWorld ''removing'' allFine) (nsPaths 4242) defaultFlags ''web''
        ''/mnt/nix'' ''/bin/sh'' [] pipeStreams ''img'' [] =
       (Return (Some (Error ''container web is in unsupported state: removing'' Plain)),
        [Exec ''podman'' [''container'', ''inspect'', ''--format'', ''json'', ''web''],
         Exec ''podman'' [''container'', ''inspect'', ''--format'', ''json'', ''web''],
         Exec ''podman'' [''image'', ''unmount'', ''img'']])"
    using d2 by simp
  from i1 nf d1 i2 c2 nn d2' f3 d3 show ?thesis by (intro conjI)
qed

text \<open>The claim as written fails where it lets only an error of the inspection lead to the
  image: the inspection of an exited container succeeds, \<^verbatim>\<open>podman mount\<close> then reports that
  there is no such container, and the command goes on in image mode and exits with code 0.\<close>

theorem mount_error_counterexample:
  "InspectContainer (containerWorld ''exited'' mountFails) ''web'' [] =
     (Inr \<lparr>ID = ''0f3a'', State = ''exited'', PID = 4242\<rparr>,
      [Exec ''podman'' [''container'', ''inspect'', ''--format'', ''json'', ''web'']])
   \<and> fst (tryContainerDebug (containerWorld ''exited'' mountFails) (nsPaths 4242) defaultFlags
            ''web'' ''/mnt/nix'' ''/nix/var/nix/profiles/default/bin/bash'' [] pipeStreams [])
       = (0, Some (Error ''mounting container web: Error: no such container'' Plain))
   \<and> isNotFound (Some (Error ''mounting container web: Error: no such container'' Plain))
   \<and> fst (debugRun (containerWorld ''exited'' mountFails) (nsPaths 4242) defaultFlags [''web''] [])
       = Exit 0
   \<and> Note ''Note: Debugging an image. Changes will be discarded on exit.''
       \<in> set (snd (debugRun (containerWorld ''exited'' mountFails) (nsPaths 4242) defaultFlags
                      [''web''] []))"
proof -
  have i: "InspectContainer (containerWorld ''exited'' mountFails) ''web'' [] =
     (Inr \<lparr>ID = ''0f3a'', State = ''exited'', PID = 4242\<rparr>,
      [Exec ''podman'' [''container'', ''inspect'', ''--format'', ''json'', ''web'']])"
    by (simp add: model_defs containerWorld_def worldOf_def mountFails_def)
  have c: "fst (tryContainerDebug (containerWorld ''exited'' mountFails) (nsPaths 4242) defaultFlags
            ''web'' ''/mnt/nix'' ''/nix/var/nix/profiles/default/bin/bash'' [] pipeStreams [])
       = (0, Some (Error ''mounting container web: Error: no such container'' Plain))"
    by (simp add: model_defs containerWorld_def worldOf_def mountFails_def defaultFlags_def
        mountError_def)
  have n: "isNotFound (Some (Error ''mounting container web: Error: no such container'' Plain))"
    by (simp add: isNotFound_def)
  have "(case debugRun (containerWorld ''exited'' mountFails) (nsPaths 4242) defaultFlags
                [''web''] [] of
           (out, t) \<Rightarrow> out = Exit 0 \<and>
             Note ''Note: Debugging an image. Changes will be discarded on exit.'' \<in> set t)"
    by (simp add: model_defs containerWorld_def worldOf_def mountFails_def defaultFlags_def
        mountError_def itoa_4242 dirOf_def flag_defs Errorf_w_def)
  then have d: "fst (debugRun (containerWorld ''exited'' mountFails) (nsPaths 4242) defaultFlags
                      [''web''] []) = Exit 0
   \<and> Note ''Note: Debugging an image. Changes will be discarded on exit.''
       \<in> set (snd (debugRun (containerWorld ''exited'' mountFails) (nsPaths 4242) defaultFlags
                      [''web''] []))"
    by (simp add: split_beta)
  from i c n d show ?thesis by (intro conjI) simp_all
qed

section \<open>Properties of live mode\<close>

text \<open>What each part of \<^verbatim>\<open>setupLiveMode\<close> adds to the run.\<close>

lemma nsOps_append [simp]: "nsOps (xs @ ys) = nsOps xs @ nsOps ys"
  by (simp add: nsOps_def)

lemma nsOps_Nil [simp]: "nsOps [] = []"
  by (simp add: nsOps_def)

lemma nsOps_Cons [simp]: "nsOps (c # cs) = (if isNsOp c then c # nsOps cs else nsOps cs)"
  by (simp add: nsOps_def)

lemma nsOps_setns [simp]: "nsOps (map setnsOf xs) = map setnsOf xs"
  by (induction xs) (auto simp: setnsOf_def)

lemma openOptional_all:
  "openOptional w ents tr = (optionalNS, tr') \<Longrightarrow>
     tr' = tr @ map (\<lambda>ns. Open (fst ns)) (filter (\<lambda>ns. snd ns \<noteq> CLONE_NEWNS) ents)
     \<and> set optionalNS \<subseteq> {ns \<in> set ents. snd ns \<noteq> CLONE_NEWNS}
     \<and> (distinct ents \<longrightarrow> distinct optionalNS)"
proof (induction w ents tr arbitrary: optionalNS tr' rule: openOptional.induct)
  case (1 w tr)
  then show ?case by simp
next
  case (2 w path clone ents tr)
  then show ?case
    by (fastforce simp: sys_def split: if_splits option.splits prod.splits)
qed

lemma openOptional_calls:
  "openOptional w ents tr = (optionalNS, tr') \<Longrightarrow>
     tr' = tr @ map (\<lambda>ns. Open (fst ns)) (filter (\<lambda>ns. snd ns \<noteq> CLONE_NEWNS) ents)"
  by (simp add: openOptional_all)


lemma nsOps_opens [simp]: "nsOps (map (\<lambda>ns. Open (fst ns)) xs) = []"
  by (induction xs) auto

lemma joinPID_calls:
  "joinPID w ns tr = tr @ map setnsOf (take 1 (filter (\<lambda>ns. snd ns = CLONE_NEWPID) ns))"
  by (induction w ns tr rule: joinPID.induct) (auto simp: sys_def setnsOf_def)

lemma joinRest_calls:
  "joinRest w ns tr = tr @ map setnsOf (filter (\<lambda>ns. snd ns \<noteq> CLONE_NEWPID) ns)"
  by (induction w ns tr rule: joinRest.induct) (auto simp: sys_def setnsOf_def)

lemma mkdirEach_calls:
  "mkdirEach w ds tr = (r, tr') \<Longrightarrow> \<exists>new. tr' = tr @ new \<and> nsOps new = []"
proof (induction ds arbitrary: tr)
  case Nil
  then show ?case by simp
next
  case (Cons d ds)
  show ?case
  proof (cases "result w tr (MkdirAll d 493)")
    case None
    with Cons.prems have "mkdirEach w ds (tr @ [MkdirAll d 493]) = (r, tr')"
      by (simp add: sys_def)
    from Cons.IH [OF this] show ?thesis by auto
  next
    case (Some e)
    with Cons.prems show ?thesis by (auto simp: sys_def)
  qed
qed

lemma createOverlay_calls:
  assumes "createOverlay w lowerDir writable tr = (r, tr')"
  shows "\<exists>new. tr' = tr @ new
           \<and> (prefix (nsOps new) (ovMounts lowerDir) \<or> prefix (ovMounts lowerDir) (nsOps new))
           \<and> (\<forall>m. r = Inr m \<longrightarrow> prefix (ovMounts lowerDir) (nsOps new))"
  using assms
  by (auto simp: createOverlay_def Let_def sys_def ovMounts_def
      split: option.splits prod.splits if_splits)


lemma mountNixStore_prefix: "prefix tr (snd (mountNixStore w fd mp base tr))"
  by (auto simp: mountNixStore_def Let_def sys_def split: option.splits prod.splits)

lemma bindDir_prefix: "prefix tr (bindDir w m mp tr)"
  by (auto simp: bindDir_def Let_def sys_def split: option.splits prod.splits)

lemma bindNetworkFile_prefix: "prefix tr (bindNetworkFile w m f tr)"
  by (auto simp: bindNetworkFile_def Let_def sys_def split: option.splits prod.splits)

lemma bindNetworkConfig_prefix: "prefix tr (bindNetworkConfig w m tr)"
  unfolding bindNetworkConfig_def foldl.simps
  by (blast intro: prefix_order.trans bindNetworkFile_prefix)

lemma bindHostMounts_prefix: "prefix tr (bindHostMounts w m tr)"
  unfolding bindHostMounts_def foldl.simps
  by (blast intro: prefix_order.trans bindNetworkConfig_prefix bindDir_prefix)

lemma mountNixInto_prefix: "prefix tr (snd (mountNixInto w fd wr m tr))"
proof -
  have a: "prefix tr (tr @ [MkdirAll (m @ ''/nix'') 493])" by simp
  have b: "prefix (tr @ [MkdirAll (m @ ''/nix'') 493])
             (snd (mountNixStore w fd (m @ ''/nix'') overlayBasePath (tr @ [MkdirAll (m @ ''/nix'') 493])))"
    by (rule mountNixStore_prefix)
  have c: "prefix (snd (mountNixStore w fd (m @ ''/nix'') overlayBasePath (tr @ [MkdirAll (m @ ''/nix'') 493])))
             (bindHostMounts w m (snd (mountNixStore w fd (m @ ''/nix'') overlayBasePath (tr @ [MkdirAll (m @ ''/nix'') 493]))))"
    by (rule bindHostMounts_prefix)
  from a b c show ?thesis
    by (auto simp: mountNixInto_def Let_def sys_def split: option.splits prod.splits)
      (meson append_prefixD prefix_order.trans)+
qed


lemma mountNixInto_calls:
  "mountNixInto w fd wr m tr = (r, tr') \<Longrightarrow> \<exists>new. tr' = tr @ new"
  using mountNixInto_prefix [of tr w fd wr m] by (auto simp: prefix_def)




lemma createOverlay_ok:
  assumes mk: "\<And>t p m. result w t (MkdirAll p m) = None"
      and mo: "\<And>t a b c d e. result w t (Mount a b c d e) = None"
  shows "fst (createOverlay w lowerDir writable tr) = Inr (overlayBasePath @ ''/merged'')"
  by (simp add: createOverlay_def Let_def sys_def mk mo)

lemma mountNixInto_ok:
  assumes mk: "\<And>t p m. result w t (MkdirAll p m) = None"
      and mo: "\<And>t a b c d e. result w t (Mount a b c d e) = None"
      and mv: "\<And>t a b c. result w t (MoveMount a b c) = None"
  shows "fst (mountNixInto w fd writable m tr) = Inr m"
  by (simp add: mountNixInto_def mountNixStore_def Let_def sys_def mk mo mv)

lemma setupLiveMode_ok:
  assumes mk: "\<And>t p m. result w t (MkdirAll p m) = None"
      and mo: "\<And>t a b c d e. result w t (Mount a b c d e) = None"
      and mv: "\<And>t a b c. result w t (MoveMount a b c) = None"
      and un: "\<And>t f. result w t (Unshare f) = None"
      and op: "\<And>t. result w t (Open (NamespacePath pid ''mnt'')) = None"
      and sn: "\<And>t. result w t (Setns (NamespacePath pid ''mnt'') CLONE_NEWNS) = None"
  shows "fst (setupLiveMode w ents pid fd writable tr) = Inr (overlayBasePath @ ''/merged'')"
proof -
  have ov: "\<And>t. \<exists>t'. createOverlay w ''/'' writable t = (Inr (overlayBasePath @ ''/merged''), t')"
    using createOverlay_ok [OF mk mo] by (metis prod.collapse)
  have nx: "\<And>t m. \<exists>t'. mountNixInto w fd writable m t = (Inr m, t')"
    using mountNixInto_ok [OF mk mo mv] by (metis prod.collapse)
  obtain ons t2 where oo:
    "openOptional w ents (tr @ [Open (NamespacePath pid ''mnt'')]) = (ons, t2)"
    by (cases "openOptional w ents (tr @ [Open (NamespacePath pid ''mnt'')])") auto
  obtain t9 where co: "createOverlay w ''/'' writable
      (joinRest w ons (joinPID w ons (t2 @ [Unshare CLONE_NEWNS]) @
          [Setns (NamespacePath pid ''mnt'') CLONE_NEWNS, Unshare CLONE_NEWNS,
           Mount [] ''/'' [] (MS_REC OR MS_PRIVATE) []]))
      = (Inr (overlayBasePath @ ''/merged''), t9)"
    using ov by blast
  obtain t10 where mn:
    "mountNixInto w fd writable (overlayBasePath @ ''/merged'') t9
       = (Inr (overlayBasePath @ ''/merged''), t10)"
    using nx by blast
  show ?thesis
    by (simp add: setupLiveMode_def Let_def sys_def un op sn mo oo co mn)
qed


lemma setupLiveMode_continues:
  assumes "result w tr (Open (NamespacePath pid ''mnt'')) = None"
      and "openOptional w ents (tr @ [Open (NamespacePath pid ''mnt'')]) = (optionalNS, tr2)"
  shows "prefix (tr2 @ [Unshare CLONE_NEWNS]) (snd (setupLiveMode w ents pid fd writable tr))"
proof (cases "result w tr2 (Unshare CLONE_NEWNS)")
  case (Some e)
  with assms show ?thesis by (simp add: setupLiveMode_def Let_def sys_def)
next
  case None
  obtain r tr' where run: "setupLiveMode w ents pid fd writable tr = (r, tr')"
    by (cases "setupLiveMode w ents pid fd writable tr") auto
  from run assms None show ?thesis
    unfolding setupLiveMode_def Let_def
    by (auto simp: sys_def joinPID_calls joinRest_calls
        split: option.splits prod.splits sum.splits
        dest!: createOverlay_calls mountNixInto_calls)
qed


lemma clone_flags_distinct:
  "CLONE_NEWPID \<noteq> CLONE_NEWNS" "CLONE_NEWNET \<noteq> CLONE_NEWNS" "CLONE_NEWIPC \<noteq> CLONE_NEWNS"
  "CLONE_NEWUTS \<noteq> CLONE_NEWNS" "CLONE_NEWNET \<noteq> CLONE_NEWPID" "CLONE_NEWIPC \<noteq> CLONE_NEWPID"
  "CLONE_NEWUTS \<noteq> CLONE_NEWPID"
  by (simp_all add: CLONE_NEWNS_def CLONE_NEWPID_def CLONE_NEWNET_def CLONE_NEWIPC_def
      CLONE_NEWUTS_def)


text \<open>The setup of a live session starts no shell, and the run of the session goes on
  from the run of its setup.\<close>

lemma spawns_append [simp]: "spawns (xs @ ys) = spawns xs @ spawns ys"
  by (simp add: spawns_def)

lemma spawns_Nil [simp]: "spawns [] = []"
  by (simp add: spawns_def)

lemma spawns_Cons [simp]: "spawns (c # cs) = (if isSpawn c then c # spawns cs else spawns cs)"
  by (simp add: spawns_def)

lemma spawns_opens [simp]: "spawns (map (\<lambda>ns. Open (fst ns)) xs) = []"
  by (induction xs) auto

lemma spawns_setns [simp]: "spawns (map setnsOf xs) = []"
  by (induction xs) (auto simp: setnsOf_def)

lemma mkdirEach_nospawn: "spawns (snd (mkdirEach w ds tr)) = spawns tr"
  by (induction ds arbitrary: tr) (auto simp: sys_def split: option.splits)


















text \<open>The namespace paths of process 4242.\<close>

lemma ns_4242:
  "NamespacePath 4242 ''mnt'' = ''/proc/4242/ns/mnt''"
  "NamespacePath 4242 ''pid'' = ''/proc/4242/ns/pid''"
  "NamespacePath 4242 ''net'' = ''/proc/4242/ns/net''"
  "NamespacePath 4242 ''ipc'' = ''/proc/4242/ns/ipc''"
  "NamespacePath 4242 ''uts'' = ''/proc/4242/ns/uts''"
  by (simp_all add: NamespacePath_def itoa_4242)


text \<open>
  Claim C4. When the target's \<^verbatim>\<open>mnt\<close> namespace file cannot be opened, the live session
  returns the error with code 125 and its last call is that \<^verbatim>\<open>open\<close>: no shell is started.
  When it can be opened, every other namespace file is tried, and whichever of them fail,
  the run goes on to \<^verbatim>\<open>unshare(CLONE_NEWNS)\<close>; if nothing but such opens fails, the setup
  succeeds.
\<close>

theorem mnt_open_fatal:
  "(result w (tr @ [Prctl PR_SET_PDEATHSIG SIGKILL, Prctl PR_SET_NO_NEW_PRIVS 1])
        (OpenTree nixPath (OPEN_TREE_CLONE OR AT_RECURSIVE)) = None
      \<and> result w (tr @ [Prctl PR_SET_PDEATHSIG SIGKILL, Prctl PR_SET_NO_NEW_PRIVS 1,
                        OpenTree nixPath (OPEN_TREE_CLONE OR AT_RECURSIVE)])
          (Open (NamespacePath pid ''mnt'')) = Some e
      \<longrightarrow> ExecLive w ents pid nixPath shell shellArgs streams opts tr =
            ((125, Some (Errorf_w (''opening mount namespace '' @ NamespacePath pid ''mnt'' @ '': '')
                           e [])),
             tr @ [Prctl PR_SET_PDEATHSIG SIGKILL, Prctl PR_SET_NO_NEW_PRIVS 1,
                   OpenTree nixPath (OPEN_TREE_CLONE OR AT_RECURSIVE),
                   Open (NamespacePath pid ''mnt'')]))
   \<and> (result w trs (Open (NamespacePath pid ''mnt'')) = None
      \<and> openOptional w ents (trs @ [Open (NamespacePath pid ''mnt'')]) = (optionalNS, tro)
      \<longrightarrow> tro = trs @ Open (NamespacePath pid ''mnt'')
                   # map (\<lambda>ns. Open (fst ns)) (filter (\<lambda>ns. snd ns \<noteq> CLONE_NEWNS) ents)
          \<and> prefix (tro @ [Unshare CLONE_NEWNS])
               (snd (setupLiveMode w ents pid nixTreeFD writable trs)))
   \<and> ((\<forall>t c. result w t c \<noteq> None \<longrightarrow> (\<exists>p. c = Open p \<and> p \<noteq> NamespacePath pid ''mnt''))
      \<longrightarrow> fst (setupLiveMode w ents pid nixTreeFD writable trs)
            = Inr (overlayBasePath @ ''/merged''))"
proof (intro conjI impI)
  assume "result w (tr @ [Prctl PR_SET_PDEATHSIG SIGKILL, Prctl PR_SET_NO_NEW_PRIVS 1])
        (OpenTree nixPath (OPEN_TREE_CLONE OR AT_RECURSIVE)) = None
      \<and> result w (tr @ [Prctl PR_SET_PDEATHSIG SIGKILL, Prctl PR_SET_NO_NEW_PRIVS 1,
                        OpenTree nixPath (OPEN_TREE_CLONE OR AT_RECURSIVE)])
          (Open (NamespacePath pid ''mnt'')) = Some e"
  then show "ExecLive w ents pid nixPath shell shellArgs streams opts tr =
            ((125, Some (Errorf_w (''opening mount namespace '' @ NamespacePath pid ''mnt'' @ '': '')
                           e [])),
             tr @ [Prctl PR_SET_PDEATHSIG SIGKILL, Prctl PR_SET_NO_NEW_PRIVS 1,
                   OpenTree nixPath (OPEN_TREE_CLONE OR AT_RECURSIVE),
                   Open (NamespacePath pid ''mnt'')])"
    by (simp add: ExecLive_def setupLiveMode_def Let_def sys_def)
next
  assume h: "result w trs (Open (NamespacePath pid ''mnt'')) = None
      \<and> openOptional w ents (trs @ [Open (NamespacePath pid ''mnt'')]) = (optionalNS, tro)"
  then show "tro = trs @ Open (NamespacePath pid ''mnt'')
                   # map (\<lambda>ns. Open (fst ns)) (filter (\<lambda>ns. snd ns \<noteq> CLONE_NEWNS) ents)"
    using openOptional_calls [of w ents "trs @ [Open (NamespacePath pid ''mnt'')]" optionalNS tro]
    by simp
  from h show "prefix (tro @ [Unshare CLONE_NEWNS])
               (snd (setupLiveMode w ents pid nixTreeFD writable trs))"
    using setupLiveMode_continues by blast
next
  assume h: "\<forall>t c. result w t c \<noteq> None \<longrightarrow> (\<exists>p. c = Open p \<and> p \<noteq> NamespacePath pid ''mnt'')"
  have ok: "\<And>t c. (\<forall>p. c \<noteq> Open p) \<Longrightarrow> result w t c = None"
    using h by blast
  have okm: "\<And>t. result w t (Open (NamespacePath pid ''mnt'')) = None"
    using h by blast
  show "fst (setupLiveMode w ents pid nixTreeFD writable trs) = Inr (overlayBasePath @ ''/merged'')"
    by (rule setupLiveMode_ok) (simp_all add: ok okm)
qed

theorem mnt_open_fatal_witness:
  "result (worldOf mntOpenFails) [Prctl PR_SET_PDEATHSIG SIGKILL, Prctl PR_SET_NO_NEW_PRIVS 1]
      (OpenTree ''/mnt/nix'' (OPEN_TREE_CLONE OR AT_RECURSIVE)) = None
   \<and> result (worldOf mntOpenFails)
        [Prctl PR_SET_PDEATHSIG SIGKILL, Prctl PR_SET_NO_NEW_PRIVS 1,
         OpenTree ''/mnt/nix'' (OPEN_TREE_CLONE OR AT_RECURSIVE)]
        (Open (NamespacePath 4242 ''mnt'')) = Some ENOENT
   \<and> ExecLive (worldOf mntOpenFails) (nsPaths 4242) 4242 ''/mnt/nix'' ''/bin/sh'' [] pipeStreams
        \<lparr>Mode = ModeLive, HostMountpoint = [], Writable = False, OptEntrypoint = None\<rparr> []
       = ((125, Some (Error ''opening mount namespace /proc/4242/ns/mnt: no such file or directory''
                        Plain)),
          [Prctl PR_SET_PDEATHSIG SIGKILL, Prctl PR_SET_NO_NEW_PRIVS 1,
           OpenTree ''/mnt/nix'' (OPEN_TREE_CLONE OR AT_RECURSIVE), Open ''/proc/4242/ns/mnt''])
   \<and> result (worldOf optionalOpensFail) [] (Open ''/proc/4242/ns/pid'') = Some ENOENT
   \<and> openOptional (worldOf optionalOpensFail) (nsPaths 4242) [Open (NamespacePath 4242 ''mnt'')]
       = ([], [Open ''/proc/4242/ns/mnt'', Open ''/proc/4242/ns/pid'', Open ''/proc/4242/ns/net'',
               Open ''/proc/4242/ns/ipc'', Open ''/proc/4242/ns/uts''])
   \<and> prefix ([Open ''/proc/4242/ns/mnt'', Open ''/proc/4242/ns/pid'', Open ''/proc/4242/ns/net'',
               Open ''/proc/4242/ns/ipc'', Open ''/proc/4242/ns/uts''] @ [Unshare CLONE_NEWNS])
        (snd (setupLiveMode (worldOf optionalOpensFail) (nsPaths 4242) 4242 ''/mnt/nix'' False []))
   \<and> fst (setupLiveMode (worldOf optionalOpensFail) (nsPaths 4242) 4242 ''/mnt/nix'' False [])
       = Inr (overlayBasePath @ ''/merged'')"
proof -
  have a: "result (worldOf mntOpenFails) ([] @ [Prctl PR_SET_PDEATHSIG SIGKILL, Prctl PR_SET_NO_NEW_PRIVS 1])
      (OpenTree ''/mnt/nix'' (OPEN_TREE_CLONE OR AT_RECURSIVE)) = None
   \<and> result (worldOf mntOpenFails)
        ([] @ [Prctl PR_SET_PDEATHSIG SIGKILL, Prctl PR_SET_NO_NEW_PRIVS 1,
         OpenTree ''/mnt/nix'' (OPEN_TREE_CLONE OR AT_RECURSIVE)])
        (Open (NamespacePath 4242 ''mnt'')) = Some ENOENT"
    by (simp add: worldOf_def mntOpenFails_def ns_4242)
  have h: "\<forall>t c. result (worldOf optionalOpensFail) t c \<noteq> None \<longrightarrow>
             (\<exists>p. c = Open p \<and> p \<noteq> NamespacePath 4242 ''mnt'')"
    by (auto simp: worldOf_def optionalOpensFail_def ns_4242 split: call.splits if_splits)
  have m: "result (worldOf optionalOpensFail) [] (Open (NamespacePath 4242 ''mnt'')) = None"
    by (simp add: worldOf_def optionalOpensFail_def ns_4242)
  have o: "openOptional (worldOf optionalOpensFail) (nsPaths 4242) ([] @ [Open (NamespacePath 4242 ''mnt'')])
       = ([], [Open ''/proc/4242/ns/mnt'', Open ''/proc/4242/ns/pid'', Open ''/proc/4242/ns/net'',
               Open ''/proc/4242/ns/ipc'', Open ''/proc/4242/ns/uts''])"
    by (simp add: worldOf_def optionalOpensFail_def nsPaths_def ns_4242 sys_def ENOENT_def
        clone_flags_distinct)
  note t1 = mnt_open_fatal [where w = "worldOf mntOpenFails" and tr = "[]" and nixPath = "''/mnt/nix''"
      and pid = 4242 and e = ENOENT and ents = "nsPaths 4242" and shell = "''/bin/sh''"
      and shellArgs = "[]" and streams = pipeStreams
      and opts = "\<lparr>Mode = ModeLive, HostMountpoint = [], Writable = False, OptEntrypoint = None\<rparr>",
      THEN conjunct1, THEN mp, OF a]
  note t2 = mnt_open_fatal [where w = "worldOf optionalOpensFail" and trs = "[]" and pid = 4242
      and ents = "nsPaths 4242" and nixTreeFD = "''/mnt/nix''" and writable = False,
      THEN conjunct2]
  note t2a = t2 [THEN conjunct1, THEN mp, OF conjI [OF m o], THEN conjunct2]
  note t2b = t2 [THEN conjunct2, THEN mp, OF h]
  have f: "result (worldOf optionalOpensFail) [] (Open ''/proc/4242/ns/pid'') = Some ENOENT"
    by (simp add: worldOf_def optionalOpensFail_def)
  from a t1 f o t2a t2b show ?thesis
    by (simp add: ns_4242 Errorf_w_def ENOENT_def)
qed

text \<open>The shell runner always tries to start the command, and succeeds with code 0 when
  starting and waiting succeed.\<close>

lemma runShell_spawns:
  "PtyStart cmd \<in> set (snd (runShell w cmd streams i tr))
   \<or> CmdRun cmd streams \<in> set (snd (runShell w cmd streams i tr))"
  by (auto simp: runShell_def Let_def sys_def split: option.splits prod.splits)

lemma runShell_ok:
  assumes "\<And>t. result w t (PtyStart cmd) = None"
      and "\<And>t. result w t (CmdWait cmd) = None"
      and "\<And>t. result w t (CmdRun cmd streams) = None"
  shows "fst (runShell w cmd streams i tr) = (0, None)"
  by (auto simp: runShell_def Let_def sys_def assms split: option.splits prod.splits)

text \<open>
  Claim C9. The two loops that join the optional namespaces make their \<^verbatim>\<open>setns\<close> calls and
  nothing else, whatever the calls return. If nothing but \<^verbatim>\<open>setns\<close> into namespaces other
  than the mount namespace fails, the live session starts the shell and returns code 0
  with no error. A failed \<^verbatim>\<open>setns\<close> into the mount namespace ends the setup with the error
  \<^verbatim>\<open>joining mount namespace\<close>.
\<close>

theorem optional_setns_ignored:
  "joinPID w optionalNS tr
     = tr @ map setnsOf (take 1 (filter (\<lambda>ns. snd ns = CLONE_NEWPID) optionalNS))
   \<and> joinRest w optionalNS tr
     = tr @ map setnsOf (filter (\<lambda>ns. snd ns \<noteq> CLONE_NEWPID) optionalNS)
   \<and> ((\<forall>t c. result w t c \<noteq> None \<longrightarrow> (\<exists>fd clone. c = Setns fd clone \<and> clone \<noteq> CLONE_NEWNS))
      \<longrightarrow> fst (ExecLive w ents pid nixPath shell shellArgs streams opts trs) = (0, None)
          \<and> (PtyStart (Command shell shellArgs)
                \<in> set (snd (ExecLive w ents pid nixPath shell shellArgs streams opts trs))
              \<or> CmdRun (Command shell shellArgs) streams
                \<in> set (snd (ExecLive w ents pid nixPath shell shellArgs streams opts trs))))
   \<and> (result w tro (Open (NamespacePath pid ''mnt'')) = None
      \<and> openOptional w ents (tro @ [Open (NamespacePath pid ''mnt'')]) = (ons, tru)
      \<and> result w tru (Unshare CLONE_NEWNS) = None
      \<and> result w (joinPID w ons (tru @ [Unshare CLONE_NEWNS]))
           (Setns (NamespacePath pid ''mnt'') CLONE_NEWNS) = Some e
      \<longrightarrow> setupLiveMode w ents pid nixTreeFD writable tro =
            (Inl (Errorf_w ''joining mount namespace: '' e []),
             joinPID w ons (tru @ [Unshare CLONE_NEWNS])
               @ [Setns (NamespacePath pid ''mnt'') CLONE_NEWNS]))"
proof (intro conjI impI)
  show "joinPID w optionalNS tr
     = tr @ map setnsOf (take 1 (filter (\<lambda>ns. snd ns = CLONE_NEWPID) optionalNS))"
    by (rule joinPID_calls)
  show "joinRest w optionalNS tr
     = tr @ map setnsOf (filter (\<lambda>ns. snd ns \<noteq> CLONE_NEWPID) optionalNS)"
    by (rule joinRest_calls)
next
  assume h: "\<forall>t c. result w t c \<noteq> None \<longrightarrow> (\<exists>fd clone. c = Setns fd clone \<and> clone \<noteq> CLONE_NEWNS)"
  have ok: "\<And>t c. (\<forall>fd clone. c \<noteq> Setns fd clone) \<Longrightarrow> result w t c = None"
    using h by blast
  have okm: "\<And>t fd. result w t (Setns fd CLONE_NEWNS) = None"
    using h by blast
  have slm: "\<And>t. fst (setupLiveMode w ents pid nixPath (Writable opts) t)
                  = Inr (overlayBasePath @ ''/merged'')"
    by (rule setupLiveMode_ok) (simp_all add: ok okm)
  have shell: "\<And>t. fst (runShell w (Command shell shellArgs) streams (length shellArgs = 0) t)
                  = (0, None)"
    by (rule runShell_ok) (simp_all add: ok)
  obtain t4 where s4: "setupLiveMode w ents pid nixPath (Writable opts)
        (trs @ [Prctl PR_SET_PDEATHSIG SIGKILL, Prctl PR_SET_NO_NEW_PRIVS 1,
                OpenTree nixPath (OPEN_TREE_CLONE OR AT_RECURSIVE)])
      = (Inr (overlayBasePath @ ''/merged''), t4)"
    using slm by (metis prod.collapse)
  define t9 where "t9 = setupEnvironment w shell
      (writeBuiltins w (overlayBasePath @ ''/merged'') (OptEntrypoint opts)
         (writeNixConfig w (overlayBasePath @ ''/merged'') t4)
       @ [Chroot (overlayBasePath @ ''/merged''), Chdir ''/''])"
  obtain t10 where s10: "runShell w (Command shell shellArgs) streams (length shellArgs = 0) t9
      = ((0, None), t10)"
    using shell by (metis prod.collapse)
  have ex: "ExecLive w ents pid nixPath shell shellArgs streams opts trs =
      ((0, None), if Writable opts then t10 @ [Unmount ''/nix'' MNT_DETACH, Remove ''/nix'']
                  else t10)"
    using s4 s10 by (simp add: ExecLive_def Let_def sys_def ok t9_def)
  from runShell_spawns [of "Command shell shellArgs" w streams "length shellArgs = 0" t9] s10
  have sp: "PtyStart (Command shell shellArgs) \<in> set t10
            \<or> CmdRun (Command shell shellArgs) streams \<in> set t10"
    by simp
  show "fst (ExecLive w ents pid nixPath shell shellArgs streams opts trs) = (0, None)"
    by (simp add: ex)
  show "PtyStart (Command shell shellArgs)
                \<in> set (snd (ExecLive w ents pid nixPath shell shellArgs streams opts trs))
              \<or> CmdRun (Command shell shellArgs) streams
                \<in> set (snd (ExecLive w ents pid nixPath shell shellArgs streams opts trs))"
    using sp by (auto simp: ex)
next
  assume "result w tro (Open (NamespacePath pid ''mnt'')) = None
      \<and> openOptional w ents (tro @ [Open (NamespacePath pid ''mnt'')]) = (ons, tru)
      \<and> result w tru (Unshare CLONE_NEWNS) = None
      \<and> result w (joinPID w ons (tru @ [Unshare CLONE_NEWNS]))
           (Setns (NamespacePath pid ''mnt'') CLONE_NEWNS) = Some e"
  then show "setupLiveMode w ents pid nixTreeFD writable tro =
            (Inl (Errorf_w ''joining mount namespace: '' e []),
             joinPID w ons (tru @ [Unshare CLONE_NEWNS])
               @ [Setns (NamespacePath pid ''mnt'') CLONE_NEWNS])"
    by (simp add: setupLiveMode_def Let_def sys_def)
qed

theorem optional_setns_ignored_witness:
  "result (worldOf optionalSetnsFail) [] (Setns ''/proc/4242/ns/pid'' CLONE_NEWPID) = Some EPERM
   \<and> fst (ExecLive (worldOf optionalSetnsFail) (nsPaths 4242) 4242 ''/mnt/nix'' ''/bin/sh''
             [''-c'', ''id''] pipeStreams
             \<lparr>Mode = ModeLive, HostMountpoint = [], Writable = False, OptEntrypoint = None\<rparr> [])
       = (0, None)
   \<and> (PtyStart (Command ''/bin/sh'' [''-c'', ''id''])
         \<in> set (snd (ExecLive (worldOf optionalSetnsFail) (nsPaths 4242) 4242 ''/mnt/nix''
                        ''/bin/sh'' [''-c'', ''id''] pipeStreams
                        \<lparr>Mode = ModeLive, HostMountpoint = [], Writable = False,
                         OptEntrypoint = None\<rparr> []))
       \<or> CmdRun (Command ''/bin/sh'' [''-c'', ''id'']) pipeStreams
         \<in> set (snd (ExecLive (worldOf optionalSetnsFail) (nsPaths 4242) 4242 ''/mnt/nix''
                        ''/bin/sh'' [''-c'', ''id''] pipeStreams
                        \<lparr>Mode = ModeLive, HostMountpoint = [], Writable = False,
                         OptEntrypoint = None\<rparr> [])))
   \<and> result (worldOf mntSetnsFails) [] (Open (NamespacePath 4242 ''mnt'')) = None
   \<and> openOptional (worldOf mntSetnsFails) (nsPaths 4242) [Open (NamespacePath 4242 ''mnt'')]
       = ([(''/proc/4242/ns/pid'', CLONE_NEWPID), (''/proc/4242/ns/net'', CLONE_NEWNET),
           (''/proc/4242/ns/ipc'', CLONE_NEWIPC), (''/proc/4242/ns/uts'', CLONE_NEWUTS)],
          [Open ''/proc/4242/ns/mnt'', Open ''/proc/4242/ns/pid'', Open ''/proc/4242/ns/net'',
           Open ''/proc/4242/ns/ipc'', Open ''/proc/4242/ns/uts''])
   \<and> setupLiveMode (worldOf mntSetnsFails) (nsPaths 4242) 4242 ''/mnt/nix'' False [] =
       (Inl (Error ''joining mount namespace: operation not permitted'' Plain),
        [Open ''/proc/4242/ns/mnt'', Open ''/proc/4242/ns/pid'', Open ''/proc/4242/ns/net'',
         Open ''/proc/4242/ns/ipc'', Open ''/proc/4242/ns/uts'', Unshare CLONE_NEWNS,
         Setns ''/proc/4242/ns/pid'' CLONE_NEWPID, Setns ''/proc/4242/ns/mnt'' CLONE_NEWNS])"
proof -
  have h: "\<forall>t c. result (worldOf optionalSetnsFail) t c \<noteq> None \<longrightarrow>
       (\<exists>fd clone. c = Setns fd clone \<and> clone \<noteq> CLONE_NEWNS)"
    by (auto simp: worldOf_def optionalSetnsFail_def split: call.splits if_splits)
  have f: "result (worldOf optionalSetnsFail) [] (Setns ''/proc/4242/ns/pid'' CLONE_NEWPID) = Some EPERM"
    by (simp add: worldOf_def optionalSetnsFail_def clone_flags_distinct)
  have m: "result (worldOf mntSetnsFails) [] (Open (NamespacePath 4242 ''mnt'')) = None"
    by (simp add: worldOf_def mntSetnsFails_def)
  have o: "openOptional (worldOf mntSetnsFails) (nsPaths 4242) ([] @ [Open (NamespacePath 4242 ''mnt'')])
       = ([(''/proc/4242/ns/pid'', CLONE_NEWPID), (''/proc/4242/ns/net'', CLONE_NEWNET),
           (''/proc/4242/ns/ipc'', CLONE_NEWIPC), (''/proc/4242/ns/uts'', CLONE_NEWUTS)],
          [Open ''/proc/4242/ns/mnt'', Open ''/proc/4242/ns/pid'', Open ''/proc/4242/ns/net'',
           Open ''/proc/4242/ns/ipc'', Open ''/proc/4242/ns/uts''])"
    by (simp add: worldOf_def mntSetnsFails_def nsPaths_def ns_4242 sys_def clone_flags_distinct)
  have u: "result (worldOf mntSetnsFails)
             [Open ''/proc/4242/ns/mnt'', Open ''/proc/4242/ns/pid'', Open ''/proc/4242/ns/net'',
              Open ''/proc/4242/ns/ipc'', Open ''/proc/4242/ns/uts''] (Unshare CLONE_NEWNS) = None"
    by (simp add: worldOf_def mntSetnsFails_def)
  have j: "result (worldOf mntSetnsFails)
             (joinPID (worldOf mntSetnsFails)
                [(''/proc/4242/ns/pid'', CLONE_NEWPID), (''/proc/4242/ns/net'', CLONE_NEWNET),
                 (''/proc/4242/ns/ipc'', CLONE_NEWIPC), (''/proc/4242/ns/uts'', CLONE_NEWUTS)]
                ([Open ''/proc/4242/ns/mnt'', Open ''/proc/4242/ns/pid'', Open ''/proc/4242/ns/net'',
                  Open ''/proc/4242/ns/ipc'', Open ''/proc/4242/ns/uts''] @ [Unshare CLONE_NEWNS]))
             (Setns (NamespacePath 4242 ''mnt'') CLONE_NEWNS) = Some EPERM"
    by (simp add: worldOf_def mntSetnsFails_def)
  note t = optional_setns_ignored [where w = "worldOf optionalSetnsFail" and trs = "[]"
      and pid = 4242 and ents = "nsPaths 4242" and nixPath = "''/mnt/nix''" and shell = "''/bin/sh''"
      and shellArgs = "[''-c'', ''id'']" and streams = pipeStreams
      and opts = "\<lparr>Mode = ModeLive, HostMountpoint = [], Writable = False, OptEntrypoint = None\<rparr>",
      THEN conjunct2, THEN conjunct2, THEN conjunct1, THEN mp, OF h]
  note t' = optional_setns_ignored [where w = "worldOf mntSetnsFails" and tro = "[]"
      and pid = 4242 and ents = "nsPaths 4242" and nixTreeFD = "''/mnt/nix''" and writable = False
      and e = EPERM,
      THEN conjunct2, THEN conjunct2, THEN conjunct2, THEN mp,
      OF conjI [OF m conjI [OF o conjI [OF u j]]]]
  from f t m o t' show ?thesis
    by (simp add: ns_4242 Errorf_w_def EPERM_def joinPID_calls setnsOf_def)
qed

section \<open>Exit codes\<close>

















lemma waits_append [simp]: "waits (xs @ ys) = waits xs @ waits ys"
  by (simp add: waits_def)

lemma waits_Nil [simp]: "waits [] = []"
  by (simp add: waits_def)

lemma waits_Cons [simp]: "waits (c # cs) = (if isWait c then c # waits cs else waits cs)"
  by (simp add: waits_def)

lemma waits_opens [simp]: "waits (map (\<lambda>ns. Open (fst ns)) xs) = []"
  by (induction xs) auto

lemma waits_setns [simp]: "waits (map setnsOf xs) = []"
  by (induction xs) (auto simp: setnsOf_def)

lemma mkdirEach_nowait: "waits (snd (mkdirEach w ds tr)) = waits tr"
  by (induction ds arbitrary: tr) (auto simp: sys_def split: option.splits)















































end
